theory Spec2Isabelle
  imports Main "HOL-Library.Word"
begin

unbundle bit_operations_syntax

section \<open>The JNI bridge of gumdrop's QUIC support\<close>

text \<open>
  The three C files under \<^verbatim>\<open>org/bluezoo/gumdrop/quic/jni\<close> are thin wrappers: a native
  method casts the \<^verbatim>\<open>jlong\<close> handles it uses to pointers, borrows its Java arguments and
  calls one function of quiche or of BoringSSL. The embedding below keeps that shape. What the
  wrappers themselves compute (the address decoding, the header-info layout, the header
  collector, the thread-local event slot, the buffer checks) is translated from the C
  text. What the libraries and the JVM answer is either a parameter of the wrapper that
  receives it, or, for the few library functions whose answer a property below depends on, a
  definition that follows the library's documentation and says so.

  Environment calls whose failure the C text tests (a \<^verbatim>\<open>NULL\<close> from
  \<^verbatim>\<open>malloc\<close>, \<^verbatim>\<open>GetDirectBufferAddress\<close>, \<^verbatim>\<open>NewByteArray\<close>, ...) have both branches
  in the model. Calls whose failure the C text does not test (\<^verbatim>\<open>NewStringUTF\<close>,
  \<^verbatim>\<open>GetStringUTFChars\<close>, the \<^verbatim>\<open>NewLongArray\<close> of \<^verbatim>\<open>quiche_conn_readable\<close>, the
  \<^verbatim>\<open>malloc\<close> and \<^verbatim>\<open>SSL_CTX_get_ex_new_index\<close> of \<^verbatim>\<open>ssl_ctx_set_alpn_protos\<close>) are
  modelled where they succeed. Java references are taken to be non-null where the C text
  does not test them.
\<close>

subsection \<open>Machine types\<close>

type_synonym byte = "8 word"
type_synonym jint = "32 word"
type_synonym jlong = "64 word"
type_synonym size_t = "64 word"
type_synonym ssize_t = "64 word"

text \<open>
  \<^verbatim>\<open>size_t\<close> and \<^verbatim>\<open>ssize_t\<close> are the 64-bit types of the platforms the library is
  built for. A C cast between integer types of different width is \<open>ucast\<close> where it
  truncates or zero-extends and \<open>scast\<close> where it sign-extends.
\<close>

subsection \<open>Address codec: \<^verbatim>\<open>decode_address\<close> (quiche\_jni.c)\<close>

text \<open>
  \<^verbatim>\<open>struct sockaddr_storage\<close> as the function leaves it: untouched (whatever the
  caller's stack held), zeroed by \<^verbatim>\<open>memset\<close>, or filled as a \<^verbatim>\<open>sockaddr_in\<close> or a
  \<^verbatim>\<open>sockaddr_in6\<close>. The port is kept as the 16-bit value the two bytes denote
  (\<^verbatim>\<open>htons\<close> stores it in network byte order).
\<close>

datatype sockaddr_storage =
    Uninitialised
  | Zeroed
  | Sockaddr_in "16 word" "byte list"
  | Sockaddr_in6 "16 word" "byte list"

definition sizeof_sockaddr_in :: nat where
  "sizeof_sockaddr_in = 16"

definition sizeof_sockaddr_in6 :: nat where
  "sizeof_sockaddr_in6 = 28"

text \<open>
  \<^verbatim>\<open>bytes[i]\<close>: the C text reads \<^verbatim>\<open>bytes[0..2]\<close> before it looks at \<^verbatim>\<open>arr_len\<close>.
  For an index inside the array the read gives the element; past its end it gives whatever
  the memory behind the array holds, here the parameter \<open>beyond\<close>.
\<close>

definition read_byte :: "(nat \<Rightarrow> byte) \<Rightarrow> byte list \<Rightarrow> nat \<Rightarrow> byte" where
  "read_byte beyond bytes i = (if i < length bytes then bytes ! i else beyond i)"

text \<open>\<^verbatim>\<open>memcpy(dst, bytes + off, n)\<close> on the same terms.\<close>

definition read_bytes :: "(nat \<Rightarrow> byte) \<Rightarrow> byte list \<Rightarrow> nat \<Rightarrow> nat \<Rightarrow> byte list" where
  "read_bytes beyond bytes off n = map (read_byte beyond bytes) [off ..< off + n]"

text \<open>
  \<open>pinned\<close> is the answer of \<^verbatim>\<open>GetByteArrayElements\<close>: \<open>False\<close> for \<^verbatim>\<open>NULL\<close>.
  The result is the returned \<^verbatim>\<open>socklen_t\<close> and the content of \<^verbatim>\<open>*ss\<close>.
\<close>

definition decode_address ::
  "bool \<Rightarrow> (nat \<Rightarrow> byte) \<Rightarrow> byte list \<Rightarrow> sockaddr_storage \<Rightarrow> nat \<times> sockaddr_storage" where
  "decode_address pinned beyond addr_arr ss =
     (let arr_len = length addr_arr in
      if \<not> pinned then (0, ss)
      else
        let family = read_byte beyond addr_arr 0;
            port = (push_bit 8 (ucast (read_byte beyond addr_arr 1)) OR
                    ucast (read_byte beyond addr_arr 2) :: 16 word)
        in if family = 4 \<and> arr_len \<ge> 7 then
             (sizeof_sockaddr_in, Sockaddr_in port (read_bytes beyond addr_arr 3 4))
           else if family = 6 \<and> arr_len \<ge> 19 then
             (sizeof_sockaddr_in6, Sockaddr_in6 port (read_bytes beyond addr_arr 3 16))
           else (0, Zeroed))"

subsection \<open>Java buffers and arrays as the JNI shows them\<close>

text \<open>
  A \<^verbatim>\<open>java.nio.ByteBuffer\<close> argument, reduced to what the native code asks of it:
  the answer of \<^verbatim>\<open>GetDirectBufferAddress\<close> (\<open>None\<close> for \<^verbatim>\<open>NULL\<close>: the buffer is not
  direct), its \<^verbatim>\<open>position()\<close>, and what the heap-buffer path of
  \<^verbatim>\<open>quiche_h3_send_body\<close> finds: no \<^verbatim>\<open>array\<close>/\<^verbatim>\<open>arrayOffset\<close> method, an exception
  from \<^verbatim>\<open>array()\<close>, \<^verbatim>\<open>NULL\<close> from \<^verbatim>\<open>GetByteArrayElements\<close>, or the elements' address
  together with \<^verbatim>\<open>arrayOffset()\<close>.
\<close>

datatype heap_array =
    No_array_method
  | Array_throws
  | Elements_null
  | Elements jlong jint

record jbuffer =
  direct_address :: "jlong option"
  jposition :: jint
  backing :: heap_array

definition GetDirectBufferAddress :: "jbuffer \<Rightarrow> jlong option" where
  "GetDirectBufferAddress buf = direct_address buf"

text \<open>
  \<^verbatim>\<open>NewByteArray(env, n)\<close>: a zero-filled array, or \<^verbatim>\<open>NULL\<close> when the JVM has no memory
  (\<open>ok = False\<close>). \<^verbatim>\<open>SetByteArrayRegion(env, arr, start, len, buf)\<close> copies \<open>len\<close> bytes
  of \<open>buf\<close> to \<open>arr[start..]\<close>; outside the array's bounds it raises
  \<^verbatim>\<open>ArrayIndexOutOfBoundsException\<close> and leaves the array as it was.
\<close>

definition NewByteArray :: "bool \<Rightarrow> nat \<Rightarrow> byte list option" where
  "NewByteArray ok n = (if ok then Some (replicate n 0) else None)"

definition SetByteArrayRegion :: "byte list \<Rightarrow> nat \<Rightarrow> nat \<Rightarrow> byte list \<Rightarrow> byte list" where
  "SetByteArrayRegion arr start len buf =
     (if start + len \<le> length arr
      then take start arr @ take len buf @ drop (start + len) arr
      else arr)"

subsection \<open>Packet header parsing: \<^verbatim>\<open>quiche_header_info\<close> (quiche\_jni.c)\<close>

text \<open>
  \<^verbatim>\<open>QUICHE_MAX_CONN_ID_LEN\<close> is a macro of \<^verbatim>\<open>quiche.h\<close>, which is not part of the
  repository; its value there is 20. \<^verbatim>\<open>sizeof(token)\<close> is the 64 of
  \<^verbatim>\<open>uint8_t token[64]\<close>.
\<close>

definition QUICHE_MAX_CONN_ID_LEN :: nat where
  "QUICHE_MAX_CONN_ID_LEN = 20"

definition sizeof_token :: nat where
  "sizeof_token = 64"

text \<open>
  What quiche's \<^verbatim>\<open>quiche_header_info\<close> leaves behind: its return value and the out
  parameters. \<open>scid\<close>, \<open>dcid\<close> and \<open>token\<close> are the three stack buffers after the call, and
  the lengths are the values of the \<^verbatim>\<open>size_t\<close> variables (which held the buffers'
  capacities before it).
\<close>

record header_info_out =
  hi_rc :: int
  version :: "32 word"
  ty :: byte
  scid :: "byte list"
  scid_len :: nat
  dcid :: "byte list"
  dcid_len :: nat
  token :: "byte list"
  token_len :: nat

definition QuicheNative_quiche_header_info ::
  "header_info_out \<Rightarrow> bool \<Rightarrow> jbuffer \<Rightarrow> jint \<Rightarrow> byte list option" where
  "QuicheNative_quiche_header_info r array_ok buf len =
     (case GetDirectBufferAddress buf of
        None \<Rightarrow> None
      | Some data \<Rightarrow>
          if hi_rc r < 0 then None
          else
            let result_len = 4 + 1
                  + 1 + dcid_len r
                  + 1 + scid_len r
                  + 1 + token_len r
            in case NewByteArray array_ok result_len of
                 None \<Rightarrow> None
               | Some result0 \<Rightarrow>
                   let ver_bytes = [ucast (drop_bit 24 (version r) AND 0xFF),
                                    ucast (drop_bit 16 (version r) AND 0xFF),
                                    ucast (drop_bit 8 (version r) AND 0xFF),
                                    ucast (version r AND 0xFF)];
                       off0 = 0;
                       result1 = SetByteArrayRegion result0 off0 4 ver_bytes;
                       off1 = off0 + 4;
                       type_byte = ty r;
                       result2 = SetByteArrayRegion result1 off1 1 [type_byte];
                       off2 = off1 + 1;
                       dcid_len_byte = (of_nat (dcid_len r) :: byte);
                       result3 = SetByteArrayRegion result2 off2 1 [dcid_len_byte];
                       off3 = off2 + 1;
                       result4 = SetByteArrayRegion result3 off3 (dcid_len r) (dcid r);
                       off4 = off3 + dcid_len r;
                       scid_len_byte = (of_nat (scid_len r) :: byte);
                       result5 = SetByteArrayRegion result4 off4 1 [scid_len_byte];
                       off5 = off4 + 1;
                       result6 = SetByteArrayRegion result5 off5 (scid_len r) (scid r);
                       off6 = off5 + scid_len r;
                       token_len_byte = (of_nat (token_len r) :: byte);
                       result7 = SetByteArrayRegion result6 off6 1 [token_len_byte];
                       off7 = off6 + 1;
                       result8 = SetByteArrayRegion result7 off7 (token_len r) (token r)
                   in Some result8)"

text \<open>The four bytes of a 32-bit value, most significant first.\<close>

definition be32 :: "32 word \<Rightarrow> byte list" where
  "be32 v = [ucast (drop_bit 24 v), ucast (drop_bit 16 v), ucast (drop_bit 8 v), ucast v]"

subsection \<open>Native objects, the engine's calls and the thread-local event slot\<close>

text \<open>
  A handle is the address of a native object, cast to \<^verbatim>\<open>jlong\<close> when it was created and cast
  back by the native methods that use it. The world below records which addresses
  hold a live object of which kind, the calls made to quiche on connections, HTTP/3
  sessions and events (in order, with their arguments), and the variable
  \<^verbatim>\<open>static __thread quiche_h3_event *current_event\<close> of h3\_jni.c, of which every
  thread has its own copy: \<open>current_event w t\<close> is the copy of thread \<open>t\<close>. Its last
  field belongs to the JVM the methods run in: \<open>jvm_decode w\<close> is the string (as its
  modified UTF-8 bytes) that this JVM's \<^verbatim>\<open>NewStringUTF\<close> builds from a byte string
  that is not modified UTF-8. The JNI leaves that string open, no native method changes
  it, and nothing below depends on what it is.

  An HTTP/3 event is a value: its kind and, for a Headers event, the header list quiche
  decoded, each name and value a byte string with its length.
\<close>

datatype native_kind = Connection | HttpSession

datatype h3_event =
    H3_HEADERS "(byte list \<times> byte list) list"
  | H3_DATA
  | H3_FINISHED
  | H3_GOAWAY
  | H3_RESET
  | H3_OTHER

text \<open>
  \<^verbatim>\<open>quiche_h3_header\<close>: the two pointers, shown as the bytes found at them, and the two
  lengths. \<open>header_bytes\<close> is what quiche reads of it: \<open>name_len\<close> bytes of the name and
  \<open>value_len\<close> bytes of the value.
\<close>

record quiche_h3_header =
  h_name :: "byte list"
  h_name_len :: nat
  h_value :: "byte list"
  h_value_len :: nat

definition header_bytes :: "quiche_h3_header \<Rightarrow> byte list \<times> byte list" where
  "header_bytes h = (take (h_name_len h) (h_name h), take (h_value_len h) (h_value h))"

record quiche_recv_info =
  ri_from :: sockaddr_storage
  ri_from_len :: nat
  ri_to :: sockaddr_storage
  ri_to_len :: nat

datatype engine_call =
    Quiche_conn_free jlong
  | Quiche_h3_conn_free jlong
  | Quiche_h3_event_free h3_event
  | Quiche_h3_conn_poll jlong jlong
  | Quiche_conn_recv jlong jlong size_t quiche_recv_info
  | Quiche_conn_send jlong jlong size_t
  | Quiche_conn_stream_recv jlong jlong jlong size_t
  | Quiche_conn_stream_send jlong jlong jlong size_t bool
  | Quiche_conn_readable jlong
  | Quiche_h3_recv_body jlong jlong jlong jlong size_t
  | Quiche_h3_send_body jlong jlong jlong "jlong option" size_t bool
  | Quiche_h3_send_response jlong jlong jlong "quiche_h3_header list" bool
  | Quiche_h3_send_request jlong jlong "quiche_h3_header list" bool

record world =
  objects :: "jlong \<Rightarrow> native_kind option"
  current_event :: "nat \<Rightarrow> h3_event option"
  calls :: "engine_call list"
  jvm_decode :: "byte list \<Rightarrow> byte list"

text \<open>
  What a native method can run into instead of returning. quiche's functions take
  pointers to live objects; called with any other pointer (a freed object, an object of
  another kind, an address that never was a handle) their behaviour is undefined.
  \<^verbatim>\<open>quiche_h3_event_type\<close> dereferences its argument, and
  \<^verbatim>\<open>quiche_h3_event_for_each_header\<close> is quiche's function for Headers events; what
  it does with an event of another kind is not modelled beyond the fact that no header
  list comes of it. \<open>Use_after_free\<close> is a read or a \<^verbatim>\<open>free\<close> through a pointer of the
  wrapper's own whose block has been released.
\<close>

datatype fault =
    Undefined_behaviour engine_call
  | Null_event
  | Not_a_headers_event
  | Use_after_free

text \<open>
  A call to quiche with the pointers it dereferences: recorded when each of them is a live
  object of the expected kind.
\<close>

definition engine :: "engine_call \<Rightarrow> (jlong \<times> native_kind) list \<Rightarrow> world \<Rightarrow> fault + world" where
  "engine c ptrs w =
     (if list_all (\<lambda>pk. objects w (fst pk) = Some (snd pk)) ptrs
      then Inr (w\<lparr>calls := calls w @ [c]\<rparr>)
      else Inl (Undefined_behaviour c))"


definition quiche_h3_conn_free :: "jlong \<Rightarrow> world \<Rightarrow> fault + world" where
  "quiche_h3_conn_free h3 w =
     (case engine (Quiche_h3_conn_free h3) [(h3, HttpSession)] w of
        Inl f \<Rightarrow> Inl f
      | Inr w' \<Rightarrow> Inr (w'\<lparr>objects := (objects w')(h3 := None)\<rparr>))"

text \<open>The event is owned by the slot that holds it; freeing it is recorded.\<close>

definition quiche_h3_event_free :: "h3_event \<Rightarrow> world \<Rightarrow> world" where
  "quiche_h3_event_free ev w = w\<lparr>calls := calls w @ [Quiche_h3_event_free ev]\<rparr>"

subsection \<open>Cleanup: \<^verbatim>\<open>quiche_conn_free\<close> (quiche\_jni.c), \<^verbatim>\<open>quiche_h3_conn_free\<close> (h3\_jni.c)\<close>


text \<open>The native method runs on thread \<open>t\<close>.\<close>

definition QuicheNative_quiche_h3_conn_free :: "nat \<Rightarrow> jlong \<Rightarrow> world \<Rightarrow> fault + world" where
  "QuicheNative_quiche_h3_conn_free t h3_conn_ptr w =
     (let h3 = h3_conn_ptr in
      case quiche_h3_conn_free h3 w of
        Inl f \<Rightarrow> Inl f
      | Inr w1 \<Rightarrow>
          (case current_event w1 t of
             None \<Rightarrow> Inr w1
           | Some ev \<Rightarrow>
               Inr ((quiche_h3_event_free ev w1)
                      \<lparr>current_event := (current_event w1)(t := None)\<rparr>)))"

subsection \<open>Event polling: \<^verbatim>\<open>quiche_h3_conn_poll\<close> (h3\_jni.c)\<close>

text \<open>
  \<open>resp\<close> is quiche's answer to \<^verbatim>\<open>quiche_h3_conn_poll(h3, conn, &ev)\<close>: the returned
  \<^verbatim>\<open>int64_t\<close> and the value left in \<^verbatim>\<open>ev\<close>. \<open>array_ok\<close> is whether
  \<^verbatim>\<open>NewLongArray(env, 2)\<close> gives an array. The result is the \<^verbatim>\<open>jlongArray\<close>
  (\<open>None\<close> for \<^verbatim>\<open>NULL\<close>) and the world after the call.
\<close>

definition QuicheNative_quiche_h3_conn_poll ::
  "nat \<Rightarrow> jlong \<times> h3_event option \<Rightarrow> bool \<Rightarrow> jlong \<Rightarrow> jlong \<Rightarrow> world
   \<Rightarrow> fault + (jlong list option \<times> world)" where
  "QuicheNative_quiche_h3_conn_poll t resp array_ok h3_conn_ptr quiche_conn_ptr w =
     (let h3 = h3_conn_ptr; conn = quiche_conn_ptr;
          w1 = (case current_event w t of
                  None \<Rightarrow> w
                | Some old \<Rightarrow>
                    (quiche_h3_event_free old w)
                      \<lparr>current_event := (current_event w)(t := None)\<rparr>)
      in case engine (Quiche_h3_conn_poll h3 conn) [(h3, HttpSession), (conn, Connection)] w1 of
           Inl f \<Rightarrow> Inl f
         | Inr w2 \<Rightarrow>
             let stream_id = fst resp; ev = snd resp in
             if stream_id <s 0 then Inr (None, w2)
             else
               let w3 = w2\<lparr>current_event := (current_event w2)(t := ev)\<rparr> in
               (case ev of
                  None \<Rightarrow> Inl Null_event
                | Some e \<Rightarrow>
                    let event_type = (case e of
                            H3_HEADERS list \<Rightarrow> 0
                          | H3_DATA \<Rightarrow> 1
                          | H3_FINISHED \<Rightarrow> 2
                          | H3_GOAWAY \<Rightarrow> 3
                          | H3_RESET \<Rightarrow> 4
                          | H3_OTHER \<Rightarrow> - 1) :: jlong
                    in if array_ok then Inr (Some [stream_id, event_type], w3)
                       else Inr (None, w3)))"

subsection \<open>C strings and Java strings\<close>

text \<open>
  A Java string crosses the JNI as modified UTF-8, and is represented here by those bytes:
  the encoding, one UTF-16 code unit after the other, that the JNI specification gives.
  A code unit from \<open>0x0001\<close> to \<open>0x007F\<close> is one byte; the code unit \<open>0\<close> and those from
  \<open>0x0080\<close> to \<open>0x07FF\<close> are two bytes, \<open>110xxxxx 10xxxxxx\<close>; those from \<open>0x0800\<close> are
  three bytes, \<open>1110xxxx 10xxxxxx 10xxxxxx\<close>. \<open>modified_utf8\<close> recognises the byte strings
  that are the encoding of a Java string: sequences of these three forms, each in the
  form its code unit is given (a two-byte form holds \<open>0\<close> or at least \<open>0x80\<close>, a
  three-byte form at least \<open>0x800\<close>). No such byte string holds a zero byte, a byte
  from \<open>0xF0\<close> (the four-byte form of standard UTF-8), or a byte from \<open>0x80\<close> that is not
  part of a multi-byte form.
\<close>

type_synonym jstring = "byte list"

fun modified_utf8 :: "byte list \<Rightarrow> bool" where
  "modified_utf8 [] = True"
| "modified_utf8 (b # bs) =
     (if 0x01 \<le> b \<and> b \<le> 0x7F then modified_utf8 bs
      else if 0xC0 \<le> b \<and> b \<le> 0xDF then
        (case bs of
           c # rest \<Rightarrow>
             0x80 \<le> c \<and> c \<le> 0xBF \<and> (0xC2 \<le> b \<or> (b = 0xC0 \<and> c = 0x80)) \<and>
             modified_utf8 rest
         | [] \<Rightarrow> False)
      else if 0xE0 \<le> b \<and> b \<le> 0xEF then
        (case bs of
           c # d # rest \<Rightarrow>
             0x80 \<le> c \<and> c \<le> 0xBF \<and> 0x80 \<le> d \<and> d \<le> 0xBF \<and> (0xE1 \<le> b \<or> 0xA0 \<le> c) \<and>
             modified_utf8 rest
         | _ \<Rightarrow> False)
      else False)"

text \<open>
  \<^verbatim>\<open>GetStringUTFChars\<close> hands out the bytes of a Java string followed by the terminating
  zero, and \<^verbatim>\<open>strlen\<close> counts up to the first zero byte. \<^verbatim>\<open>NewStringUTF\<close> reads its
  argument up to the first zero byte. When these bytes are modified UTF-8, the string it
  builds is the one they encode; when they are not, the string is whatever the JVM's
  decoder makes of them, \<open>dec\<close> of the bytes.
\<close>

definition GetStringUTFChars :: "jstring \<Rightarrow> byte list" where
  "GetStringUTFChars s = s @ [0]"

definition strlen :: "byte list \<Rightarrow> nat" where
  "strlen buf = length (takeWhile (\<lambda>b. b \<noteq> 0) buf)"

definition NewStringUTF :: "(byte list \<Rightarrow> byte list) \<Rightarrow> byte list \<Rightarrow> jstring" where
  "NewStringUTF dec buf =
     (let bytes = takeWhile (\<lambda>b. b \<noteq> 0) buf
      in if modified_utf8 bytes then bytes else dec bytes)"

subsection \<open>Header retrieval: \<^verbatim>\<open>header_cb\<close> and \<^verbatim>\<open>quiche_h3_event_headers\<close> (h3\_jni.c)\<close>

text \<open>
  The answers of \<^verbatim>\<open>malloc\<close> and \<^verbatim>\<open>realloc\<close> are a list of booleans, consumed one per
  request in program order: \<open>False\<close> is \<^verbatim>\<open>NULL\<close>, and once the list is used up every
  request succeeds.
\<close>

definition alloc :: "bool list \<Rightarrow> bool \<times> bool list" where
  "alloc mem = (case mem of [] \<Rightarrow> (True, []) | ok # rest \<Rightarrow> (ok, rest))"

text \<open>
  The heap as the header collector sees it: the answers the allocator has left, and
  whether the blocks that \<^verbatim>\<open>hc->names\<close> and \<^verbatim>\<open>hc->values\<close> point to have been
  released while the collector still points to them. A \<^verbatim>\<open>realloc\<close> that succeeds
  releases the old block (or keeps it as the new one); one that fails leaves the old block
  as it was.
\<close>

record heap =
  answers :: "bool list"
  names_released :: bool
  values_released :: bool

text \<open>
  \<^verbatim>\<open>struct header_collector\<close>. The arrays \<^verbatim>\<open>names\<close> and \<^verbatim>\<open>values\<close> are
  represented by the entries written so far (the first \<^verbatim>\<open>count\<close> ones), each the C
  string that \<^verbatim>\<open>header_cb\<close> built: the bytes and the terminating zero. \<^verbatim>\<open>count\<close> and
  \<^verbatim>\<open>capacity\<close> are C \<^verbatim>\<open>int\<close>s; they are natural numbers here, which is what they are
  below \<open>2^30\<close> collected headers.
\<close>

record header_collector =
  hc_count :: nat
  hc_capacity :: nat
  hc_names :: "byte list list"
  hc_values :: "byte list list"

text \<open>
  The callback, on the collector and the heap. \<open>name\<close> and \<open>val\<close> are the \<open>name_len\<close>
  and \<open>value_len\<close> bytes at the two pointers.

  When the arrays are full, both are reallocated. If either \<^verbatim>\<open>realloc\<close> gave \<^verbatim>\<open>NULL\<close>
  the callback frees both new pointers and returns \<open>-1\<close> without storing them. A
  \<^verbatim>\<open>realloc\<close> that had succeeded has then released the old block, or kept it as the new
  block that the callback frees: either way the collector's pointer is left on released
  memory. A failed \<^verbatim>\<open>malloc\<close> of \<open>n\<close> or \<open>v\<close> leaves the collector as it was.
\<close>

definition header_cb ::
  "byte list \<Rightarrow> byte list \<Rightarrow> header_collector \<times> heap
   \<Rightarrow> int \<times> (header_collector \<times> heap)" where
  "header_cb name val argp =
     (let hc = fst argp; mem = snd argp;
          full = (hc_count hc \<ge> hc_capacity hc);
          new_cap = hc_capacity hc * 2;
          new_names = alloc (answers mem);
          new_values = alloc (snd new_names)
      in if full \<and> (\<not> fst new_names \<or> \<not> fst new_values)
         then (- 1, (hc, mem\<lparr>answers := snd new_values,
                               names_released := names_released mem \<or> fst new_names,
                               values_released := values_released mem \<or> fst new_values\<rparr>))
         else
           let hc1 = (if full then hc\<lparr>hc_capacity := new_cap\<rparr> else hc);
               mem1 = (if full then mem\<lparr>answers := snd new_values\<rparr> else mem);
               n = alloc (answers mem1);
               v = alloc (snd n)
           in if \<not> fst n \<or> \<not> fst v then (- 1, (hc1, mem1\<lparr>answers := snd v\<rparr>))
              else (0, (hc1\<lparr>hc_names := hc_names hc1 @ [name @ [0]],
                            hc_values := hc_values hc1 @ [val @ [0]],
                            hc_count := hc_count hc1 + 1\<rparr>, mem1\<lparr>answers := snd v\<rparr>)))"

text \<open>
  quiche's \<^verbatim>\<open>quiche_h3_event_for_each_header(ev, cb, argp)\<close>, after its documentation:
  it calls \<open>cb\<close> on each header of a Headers event in the list's order, stops at the first
  call that returns non-zero and returns that value, and returns 0 after the last header.
\<close>

fun for_each_header ::
  "(byte list \<Rightarrow> byte list \<Rightarrow> 'a \<Rightarrow> int \<times> 'a) \<Rightarrow> (byte list \<times> byte list) list \<Rightarrow> 'a \<Rightarrow> int \<times> 'a" where
  "for_each_header cb [] argp = (0, argp)"
| "for_each_header cb (h # list) argp =
     (case cb (fst h) (snd h) argp of
        (rc, argp') \<Rightarrow> if rc \<noteq> 0 then (rc, argp') else for_each_header cb list argp')"

definition quiche_h3_event_for_each_header ::
  "h3_event \<Rightarrow> (byte list \<Rightarrow> byte list \<Rightarrow> 'a \<Rightarrow> int \<times> 'a) \<Rightarrow> 'a \<Rightarrow> fault + (int \<times> 'a)" where
  "quiche_h3_event_for_each_header ev cb argp =
     (case ev of
        H3_HEADERS list \<Rightarrow> Inr (for_each_header cb list argp)
      | _ \<Rightarrow> Inl Not_a_headers_event)"

text \<open>
  \<^verbatim>\<open>NewObjectArray(env, n, string_class, NULL)\<close>: \<open>n\<close> null references, or \<^verbatim>\<open>NULL\<close>.
  The loop that fills the flat \<^verbatim>\<open>String[]\<close> is a fold over the indices.
\<close>

definition NewObjectArray :: "bool \<Rightarrow> nat \<Rightarrow> jstring option list option" where
  "NewObjectArray ok n = (if ok then Some (replicate n None) else None)"

definition fill_result ::
  "(byte list \<Rightarrow> byte list) \<Rightarrow> header_collector \<Rightarrow> jstring option list \<Rightarrow> jstring option list" where
  "fill_result dec hc result =
     fold (\<lambda>i res.
             let jname = NewStringUTF dec (hc_names hc ! i);
                 jvalue = NewStringUTF dec (hc_values hc ! i)
             in (res[i * 2 := Some jname])[i * 2 + 1 := Some jvalue])
          [0 ..< hc_count hc] result"

text \<open>
  The native method on thread \<open>t\<close>; \<open>mem\<close> are the allocator's answers and \<open>array_ok\<close> is
  whether \<^verbatim>\<open>NewObjectArray\<close> gives an array. The handle \<^verbatim>\<open>h3_conn_ptr\<close> is not used.
  The world is only read. The result is the \<^verbatim>\<open>String[]\<close>, or \<open>None\<close> for \<^verbatim>\<open>NULL\<close>.

  When the callback stopped the iteration, the cleanup reads the entries of both arrays
  through \<^verbatim>\<open>hc.names\<close> and \<^verbatim>\<open>hc.values\<close> and frees the two arrays. If one of them was
  released in the callback, that is a use after free and a double free.
\<close>

definition QuicheNative_quiche_h3_event_headers ::
  "nat \<Rightarrow> bool list \<Rightarrow> bool \<Rightarrow> jlong \<Rightarrow> world \<Rightarrow> fault + jstring option list option" where
  "QuicheNative_quiche_h3_event_headers t mem array_ok h3_conn_ptr w =
     (case current_event w t of
        None \<Rightarrow> Inr None
      | Some ev \<Rightarrow>
          let names0 = alloc mem;
              values0 = alloc (snd names0)
          in if \<not> fst names0 \<or> \<not> fst values0 then Inr None
             else
               let hc = \<lparr>hc_count = 0, hc_capacity = 32, hc_names = [], hc_values = []\<rparr>;
                   heap0 = \<lparr>answers = snd values0, names_released = False,
                            values_released = False\<rparr>
               in case quiche_h3_event_for_each_header ev header_cb (hc, heap0) of
                    Inl f \<Rightarrow> Inl f
                  | Inr (rc, hc', heap') \<Rightarrow>
                      if rc \<noteq> 0
                      then (if names_released heap' \<or> values_released heap'
                            then Inl Use_after_free else Inr None)
                      else
                        (case NewObjectArray array_ok (hc_count hc' * 2) of
                           None \<Rightarrow> Inr None
                         | Some result \<Rightarrow>
                             Inr (Some (fill_result (jvm_decode w) hc' result))))"

subsection \<open>Sending headers: \<^verbatim>\<open>quiche_h3_send_response\<close>, \<^verbatim>\<open>quiche_h3_send_request\<close> (h3\_jni.c)\<close>

text \<open>
  Both methods build the \<^verbatim>\<open>quiche_h3_header\<close> array with the same loop over the flat
  \<^verbatim>\<open>String[]\<close>: \<^verbatim>\<open>num_headers = header_count / 2\<close> entries, entry \<open>i\<close> from the strings
  at \<open>2i\<close> and \<open>2i + 1\<close>.
\<close>

definition h3_headers_of :: "jstring list \<Rightarrow> quiche_h3_header list" where
  "h3_headers_of headers =
     (let header_count = length headers;
          num_headers = header_count div 2
      in map (\<lambda>i. let name = GetStringUTFChars (headers ! (i * 2));
                       val = GetStringUTFChars (headers ! (i * 2 + 1))
                   in \<lparr>h_name = name, h_name_len = strlen name,
                       h_value = val, h_value_len = strlen val\<rparr>)
             [0 ..< num_headers])"

text \<open>
  \<open>rc\<close> is quiche's answer and \<open>malloc_ok\<close> whether the header array could be allocated.
\<close>

definition QuicheNative_quiche_h3_send_response ::
  "jint \<Rightarrow> bool \<Rightarrow> jlong \<Rightarrow> jlong \<Rightarrow> jlong \<Rightarrow> jstring list \<Rightarrow> bool \<Rightarrow> world
   \<Rightarrow> fault + (jint \<times> world)" where
  "QuicheNative_quiche_h3_send_response rc malloc_ok h3_conn_ptr quiche_conn_ptr stream_id headers fin w =
     (let h3 = h3_conn_ptr; conn = quiche_conn_ptr in
      if \<not> malloc_ok then Inr (- 1, w)
      else
        let h3_headers = h3_headers_of headers in
        case engine (Quiche_h3_send_response h3 conn stream_id h3_headers fin)
               [(h3, HttpSession), (conn, Connection)] w of
          Inl f \<Rightarrow> Inl f
        | Inr w' \<Rightarrow> Inr (rc, w'))"

definition QuicheNative_quiche_h3_send_request ::
  "jlong \<Rightarrow> bool \<Rightarrow> jlong \<Rightarrow> jlong \<Rightarrow> jstring list \<Rightarrow> bool \<Rightarrow> world
   \<Rightarrow> fault + (jlong \<times> world)" where
  "QuicheNative_quiche_h3_send_request stream_id malloc_ok h3_conn_ptr quiche_conn_ptr headers fin w =
     (let h3 = h3_conn_ptr; conn = quiche_conn_ptr in
      if \<not> malloc_ok then Inr (- 1, w)
      else
        let h3_headers = h3_headers_of headers in
        case engine (Quiche_h3_send_request h3 conn h3_headers fin)
               [(h3, HttpSession), (conn, Connection)] w of
          Inl f \<Rightarrow> Inl f
        | Inr w' \<Rightarrow> Inr (stream_id, w'))"

subsection \<open>Packet and stream I/O (quiche\_jni.c), body I/O (h3\_jni.c)\<close>

text \<open>
  In each method below the first parameter is quiche's answer (an \<^verbatim>\<open>ssize_t\<close>, for
  \<^verbatim>\<open>quiche_conn_stream_recv\<close> together with the \<^verbatim>\<open>fin\<close> flag it sets). \<^verbatim>\<open>(size_t)len\<close>
  sign-extends the \<^verbatim>\<open>jint\<close>, and \<^verbatim>\<open>(jint)\<close> keeps the low 32 bits of the answer.
  \<^verbatim>\<open>quiche_conn_recv\<close> decodes its two addresses into fresh stack variables; the two
  \<open>env\<close> parameters are what \<^verbatim>\<open>decode_address\<close> is given by the JVM and by the memory
  behind a short array.
\<close>

definition QuicheNative_quiche_conn_recv ::
  "ssize_t \<Rightarrow> bool \<times> (nat \<Rightarrow> byte) \<Rightarrow> bool \<times> (nat \<Rightarrow> byte) \<Rightarrow> jlong \<Rightarrow> jbuffer \<Rightarrow> jint
   \<Rightarrow> byte list \<Rightarrow> byte list \<Rightarrow> world \<Rightarrow> fault + (jint \<times> world)" where
  "QuicheNative_quiche_conn_recv recv_len from_env to_env conn_ptr buf len from_addr to_addr w =
     (let conn = conn_ptr in
      case GetDirectBufferAddress buf of
        None \<Rightarrow> Inr (- 1, w)
      | Some data \<Rightarrow>
          let from_dec = decode_address (fst from_env) (snd from_env) from_addr Uninitialised;
              to_dec = decode_address (fst to_env) (snd to_env) to_addr Uninitialised;
              recv_info = \<lparr>ri_from = snd from_dec, ri_from_len = fst from_dec,
                           ri_to = snd to_dec, ri_to_len = fst to_dec\<rparr>
          in case engine (Quiche_conn_recv conn data (scast len) recv_info)
                    [(conn, Connection)] w of
               Inl f \<Rightarrow> Inl f
             | Inr w' \<Rightarrow> Inr (ucast recv_len, w'))"

definition QuicheNative_quiche_conn_send ::
  "ssize_t \<Rightarrow> jlong \<Rightarrow> jbuffer \<Rightarrow> jint \<Rightarrow> world \<Rightarrow> fault + (jint \<times> world)" where
  "QuicheNative_quiche_conn_send written conn_ptr buf len w =
     (let conn = conn_ptr in
      case GetDirectBufferAddress buf of
        None \<Rightarrow> Inr (- 1, w)
      | Some data \<Rightarrow>
          (case engine (Quiche_conn_send conn data (scast len)) [(conn, Connection)] w of
             Inl f \<Rightarrow> Inl f
           | Inr w' \<Rightarrow> Inr (ucast written, w')))"

text \<open>
  The second component of the result is what \<^verbatim>\<open>SetBooleanArrayRegion\<close> stores in
  \<^verbatim>\<open>fin[0]\<close>, if it is called.
\<close>

definition QuicheNative_quiche_conn_stream_recv ::
  "ssize_t \<times> bool \<Rightarrow> jlong \<Rightarrow> jlong \<Rightarrow> jbuffer \<Rightarrow> jint \<Rightarrow> world
   \<Rightarrow> fault + ((jint \<times> bool option) \<times> world)" where
  "QuicheNative_quiche_conn_stream_recv resp conn_ptr stream_id buf len w =
     (let conn = conn_ptr in
      case GetDirectBufferAddress buf of
        None \<Rightarrow> Inr ((- 1, None), w)
      | Some data \<Rightarrow>
          (case engine (Quiche_conn_stream_recv conn stream_id data (scast len))
                  [(conn, Connection)] w of
             Inl f \<Rightarrow> Inl f
           | Inr w' \<Rightarrow>
               let recv_len = fst resp; is_fin = snd resp in
               Inr ((ucast recv_len, if 0 \<le>s recv_len then Some is_fin else None), w')))"

definition QuicheNative_quiche_conn_stream_send ::
  "ssize_t \<Rightarrow> jlong \<Rightarrow> jlong \<Rightarrow> jbuffer \<Rightarrow> jint \<Rightarrow> bool \<Rightarrow> world
   \<Rightarrow> fault + (jint \<times> world)" where
  "QuicheNative_quiche_conn_stream_send sent conn_ptr stream_id buf len fin w =
     (let conn = conn_ptr in
      case GetDirectBufferAddress buf of
        None \<Rightarrow> Inr (- 1, w)
      | Some data \<Rightarrow>
          (case engine (Quiche_conn_stream_send conn stream_id data (scast len) fin)
                  [(conn, Connection)] w of
             Inl f \<Rightarrow> Inl f
           | Inr w' \<Rightarrow> Inr (ucast sent, w')))"

definition QuicheNative_quiche_h3_recv_body ::
  "ssize_t \<Rightarrow> jlong \<Rightarrow> jlong \<Rightarrow> jlong \<Rightarrow> jbuffer \<Rightarrow> jint \<Rightarrow> world
   \<Rightarrow> fault + (jint \<times> world)" where
  "QuicheNative_quiche_h3_recv_body recv_len h3_conn_ptr quiche_conn_ptr stream_id buf len w =
     (let h3 = h3_conn_ptr; conn = quiche_conn_ptr in
      case GetDirectBufferAddress buf of
        None \<Rightarrow> Inr (- 1, w)
      | Some data \<Rightarrow>
          (case engine (Quiche_h3_recv_body h3 conn stream_id data (scast len))
                  [(h3, HttpSession), (conn, Connection)] w of
             Inl f \<Rightarrow> Inl f
           | Inr w' \<Rightarrow> Inr (ucast recv_len, w')))"

text \<open>\<^verbatim>\<open>QUICHE_ERR_DONE\<close> is \<open>-1\<close> in \<^verbatim>\<open>quiche.h\<close>.\<close>

definition QUICHE_ERR_DONE :: jint where
  "QUICHE_ERR_DONE = - 1"

text \<open>
  \<^verbatim>\<open>quiche_h3_send_body\<close> has three paths: a zero length, which calls quiche with a
  \<^verbatim>\<open>NULL\<close> pointer and never looks at the buffer; a direct buffer, read at its position;
  and a heap buffer, read through its backing array.
\<close>

definition QuicheNative_quiche_h3_send_body ::
  "ssize_t \<Rightarrow> jlong \<Rightarrow> jlong \<Rightarrow> jlong \<Rightarrow> jbuffer \<Rightarrow> jint \<Rightarrow> bool \<Rightarrow> world
   \<Rightarrow> fault + (jint \<times> world)" where
  "QuicheNative_quiche_h3_send_body written h3_conn_ptr quiche_conn_ptr stream_id buf len fin w =
     (let h3 = h3_conn_ptr; conn = quiche_conn_ptr;
          send = (\<lambda>data n.
                    case engine (Quiche_h3_send_body h3 conn stream_id data n fin)
                           [(h3, HttpSession), (conn, Connection)] w of
                      Inl f \<Rightarrow> Inl f
                    | Inr w' \<Rightarrow> Inr (ucast written :: jint, w'))
      in if len = 0 then send None 0
         else
           let pos = jposition buf in
           case GetDirectBufferAddress buf of
             Some data \<Rightarrow> send (Some (data + scast pos)) (scast len)
           | None \<Rightarrow>
               (case backing buf of
                  No_array_method \<Rightarrow> Inr (QUICHE_ERR_DONE, w)
                | Array_throws \<Rightarrow> Inr (QUICHE_ERR_DONE, w)
                | Elements_null \<Rightarrow> Inr (QUICHE_ERR_DONE, w)
                | Elements bytes array_offset \<Rightarrow>
                    let offset = array_offset + pos in
                    send (Some (bytes + scast offset)) (scast len)))"

subsection \<open>Readable streams: \<^verbatim>\<open>quiche_conn_readable\<close> (quiche\_jni.c)\<close>

text \<open>
  The iterator quiche returns is the list of stream ids it will yield;
  \<^verbatim>\<open>quiche_stream_iter_next\<close> takes the first one off, or returns false on the empty
  list. The loop calls it before it tests \<^verbatim>\<open>count < 256\<close>. \<^verbatim>\<open>ids\<close> is represented by
  its first \<^verbatim>\<open>count\<close> entries. The result of the loop is what is left of the iterator,
  the array and the count.
\<close>

fun readable_loop :: "jlong list \<Rightarrow> jlong list \<Rightarrow> nat \<Rightarrow> jlong list \<times> jlong list \<times> nat" where
  "readable_loop [] ids count = ([], ids, count)"
| "readable_loop (next_id # iter) ids count =
     (if count < 256 then readable_loop iter (ids @ [next_id]) (count + 1)
      else (iter, ids, count))"

text \<open>
  \<open>iter\<close> is quiche's answer to \<^verbatim>\<open>quiche_conn_readable(conn)\<close>, \<open>None\<close> for \<^verbatim>\<open>NULL\<close>.
\<close>

definition QuicheNative_quiche_conn_readable ::
  "jlong list option \<Rightarrow> jlong \<Rightarrow> world \<Rightarrow> fault + (jlong list \<times> world)" where
  "QuicheNative_quiche_conn_readable iter conn_ptr w =
     (let conn = conn_ptr in
      case engine (Quiche_conn_readable conn) [(conn, Connection)] w of
        Inl f \<Rightarrow> Inl f
      | Inr w' \<Rightarrow>
          (case iter of
             None \<Rightarrow> Inr ([], w')
           | Some it \<Rightarrow>
               let r = readable_loop it [] 0;
                   ids = fst (snd r);
                   count = snd (snd r);
                   elems = map (\<lambda>i. ids ! i) [0 ..< count]
               in Inr (elems, w')))"

subsection \<open>ALPN: \<^verbatim>\<open>ssl_ctx_set_alpn_protos\<close> and \<^verbatim>\<open>alpn_select_cb\<close> (ssl\_ctx\_jni.c)\<close>

text \<open>
  Protocol lists travel in the TLS wire format: each protocol is one length byte followed
  by that many bytes, and no protocol is empty. \<open>alpn_wire\<close> writes a list of protocols in
  that format and \<open>alpn_list\<close> reads one, \<open>None\<close> when the bytes are not such a list.
\<close>

definition alpn_wire :: "byte list list \<Rightarrow> byte list" where
  "alpn_wire ps = concat (map (\<lambda>p. of_nat (length p) # p) ps)"

fun alpn_list :: "byte list \<Rightarrow> byte list list option" where
  "alpn_list [] = Some []"
| "alpn_list (l # rest) =
     (if l = 0 \<or> length rest < unat l then None
      else case alpn_list (drop (unat l) rest) of
             None \<Rightarrow> None
           | Some ps \<Rightarrow> Some (take (unat l) rest # ps))"

text \<open>
  \<^verbatim>\<open>SSL_select_next_proto(out, out_len, peer, peer_len, supported, supported_len)\<close> is
  BoringSSL's, not this repository's. The definition follows its documentation in
  \<^verbatim>\<open>openssl/ssl.h\<close>: both arguments are wire-format lists; the function finds the first
  protocol of its first list (\<^verbatim>\<open>peer\<close>) that is also in its second list
  (\<^verbatim>\<open>supported\<close>), sets \<^verbatim>\<open>*out\<close> to it and returns \<^verbatim>\<open>OPENSSL_NPN_NEGOTIATED\<close>;
  otherwise it returns \<^verbatim>\<open>OPENSSL_NPN_NO_OVERLAP\<close> with \<^verbatim>\<open>*out\<close> set to the first
  protocol of the second list; on a malformed list, or an empty second list, it returns
  \<^verbatim>\<open>OPENSSL_NPN_NO_OVERLAP\<close> with an empty \<^verbatim>\<open>*out\<close>. (OpenSSL documents the same
  selection, naming the two lists \<^verbatim>\<open>server\<close> and \<^verbatim>\<open>client\<close>.) The result is the return
  value and \<^verbatim>\<open>*out\<close>.
\<close>

definition OPENSSL_NPN_NEGOTIATED :: int where
  "OPENSSL_NPN_NEGOTIATED = 1"

definition OPENSSL_NPN_NO_OVERLAP :: int where
  "OPENSSL_NPN_NO_OVERLAP = 2"

definition SSL_select_next_proto :: "byte list \<Rightarrow> byte list \<Rightarrow> int \<times> byte list" where
  "SSL_select_next_proto peer supported =
     (case (alpn_list peer, alpn_list supported) of
        (Some peer_protos, Some (s # supported_protos)) \<Rightarrow>
          (case find (\<lambda>p. p \<in> set (s # supported_protos)) peer_protos of
             Some p \<Rightarrow> (OPENSSL_NPN_NEGOTIATED, p)
           | None \<Rightarrow> (OPENSSL_NPN_NO_OVERLAP, s))
      | _ \<Rightarrow> (OPENSSL_NPN_NO_OVERLAP, []))"

text \<open>
  The state of ssl\_ctx\_jni.c: the static \<^verbatim>\<open>ssl_ctx_ex_data_index\<close> (\<open>-1\<close> until the
  first call of \<^verbatim>\<open>ssl_ctx_set_alpn_protos\<close>), and of an \<^verbatim>\<open>SSL_CTX\<close> what the file
  touches: the list it advertises as a client, its ex-data slots and whether the
  selection callback is installed.
\<close>

text \<open>\<^verbatim>\<open>alpn_protos_t\<close>, with its fields \<^verbatim>\<open>data\<close> and \<^verbatim>\<open>len\<close>.\<close>

record alpn_protos_t =
  protos_data :: "byte list"
  protos_len :: nat

record ssl_ctx =
  alpn_client_protos :: "byte list"
  ex_data :: "int \<Rightarrow> alpn_protos_t option"
  select_cb_installed :: bool

definition SSL_TLSEXT_ERR_OK :: int where
  "SSL_TLSEXT_ERR_OK = 0"

definition SSL_TLSEXT_ERR_ALERT_FATAL :: int where
  "SSL_TLSEXT_ERR_ALERT_FATAL = 2"

definition SSL_TLSEXT_ERR_NOACK :: int where
  "SSL_TLSEXT_ERR_NOACK = 3"

text \<open>
  The callback, on the file's state and the list the peer advertised (\<^verbatim>\<open>in\<close>,
  \<^verbatim>\<open>inlen\<close>). The result is its return value and \<^verbatim>\<open>*out\<close> (\<open>None\<close> when the callback
  did not set it).
\<close>

definition alpn_select_cb :: "int \<times> ssl_ctx \<Rightarrow> byte list \<Rightarrow> int \<times> byte list option" where
  "alpn_select_cb st in_protos =
     (let ssl_ctx_ex_data_index = fst st; ctx = snd st;
          protos = ex_data ctx ssl_ctx_ex_data_index
      in case protos of
           None \<Rightarrow> (SSL_TLSEXT_ERR_NOACK, None)
         | Some p \<Rightarrow>
             let sel = SSL_select_next_proto (take (protos_len p) (protos_data p)) in_protos
             in if fst sel \<noteq> OPENSSL_NPN_NEGOTIATED then (SSL_TLSEXT_ERR_NOACK, Some (snd sel))
                else (SSL_TLSEXT_ERR_OK, Some (snd sel)))"

text \<open>
  \<open>ret\<close> is the answer of \<^verbatim>\<open>SSL_CTX_set_alpn_protos\<close> (0 when it stored the list) and
  \<open>new_index\<close> the index \<^verbatim>\<open>SSL_CTX_get_ex_new_index\<close> hands out on the first call.
\<close>

definition QuicheNative_ssl_ctx_set_alpn_protos ::
  "int \<Rightarrow> nat \<Rightarrow> byte list \<Rightarrow> int \<times> ssl_ctx \<Rightarrow> jint \<times> (int \<times> ssl_ctx)" where
  "QuicheNative_ssl_ctx_set_alpn_protos ret new_index protos st =
     (let ssl_ctx_ex_data_index = fst st; ctx = snd st;
          buf = protos; n = length protos;
          ctx1 = (if ret = 0 then ctx\<lparr>alpn_client_protos := take n buf\<rparr> else ctx);
          index1 = (if ssl_ctx_ex_data_index < 0 then int new_index else ssl_ctx_ex_data_index);
          ap = \<lparr>protos_data = take n buf, protos_len = n\<rparr>;
          ctx2 = ctx1\<lparr>ex_data := (ex_data ctx1)(index1 := Some ap)\<rparr>;
          ctx3 = ctx2\<lparr>select_cb_installed := True\<rparr>
      in (if ret = 0 then 0 else - 1, (index1, ctx3)))"

text \<open>
  The selection the specification describes, for comparison: the first protocol of the
  peer's list, in the peer's order, that is in the local table.
\<close>

definition spec_alpn_select :: "byte list list \<Rightarrow> byte list list \<Rightarrow> byte list option" where
  "spec_alpn_select advertised table = find (\<lambda>p. p \<in> set table) advertised"

text \<open>A list of protocols that the wire format can carry.\<close>

definition alpn_protocols :: "byte list list \<Rightarrow> bool" where
  "alpn_protocols ps = list_all (\<lambda>p. p \<noteq> [] \<and> length p \<le> 255) ps"

subsection \<open>Example inputs\<close>

text \<open>
  A world with one connection at \<open>0x1000\<close> and two HTTP/3 sessions at \<open>0x2000\<close> and
  \<open>0x3000\<close>, no cached event and no call made yet, in a JVM that makes the string \<open>?\<close>
  of every byte string that is not modified UTF-8; a direct buffer and a heap buffer.
\<close>

definition example_world :: world where
  "example_world =
     \<lparr>objects = (\<lambda>_. None)(0x1000 := Some Connection, 0x2000 := Some HttpSession,
                             0x3000 := Some HttpSession),
      current_event = (\<lambda>_. None),
      calls = [],
      jvm_decode = (\<lambda>bytes. [0x3F])\<rparr>"

definition direct_buffer :: jbuffer where
  "direct_buffer = \<lparr>direct_address = Some 0x7F0000001000, jposition = 0, backing = No_array_method\<rparr>"

definition heap_buffer :: jbuffer where
  "heap_buffer = \<lparr>direct_address = None, jposition = 0, backing = Elements 0x7F0000002000 0\<rparr>"

subsection \<open>Header lists\<close>

text \<open>
  A header list crosses the JNI as a flat \<^verbatim>\<open>String[]\<close> that alternates name, value,
  name, value, ...: \<open>flat_headers\<close> of the list of pairs.
\<close>

definition flat_headers :: "(byte list \<times> byte list) list \<Rightarrow> byte list list" where
  "flat_headers hs = concat (map (\<lambda>h. [fst h, snd h]) hs)"

text \<open>The bytes before the first zero byte: what a C string keeps of a byte string.\<close>

definition c_string :: "byte list \<Rightarrow> byte list" where
  "c_string s = takeWhile (\<lambda>b. b \<noteq> 0) s"

section \<open>Properties\<close>

subsection \<open>Address decoding\<close>

lemma read_bytes_inside:
  "off + n \<le> length bytes \<Longrightarrow> read_bytes beyond bytes off n = take n (drop off bytes)"
  by (auto simp: read_bytes_def read_byte_def list_eq_iff_nth_eq)

text \<open>
  C7. \<^verbatim>\<open>decode_address\<close> reports an error (returns length 0 and fills in no address)
  for every input shorter than 7 bytes, for every input whose family byte is 6 and that is
  shorter than 19 bytes, and for every input whose first byte is neither 4 nor 6. It
  accepts exactly the inputs with family byte 4 and at least 7 bytes or family byte 6 and
  at least 19 bytes (when the JVM hands out the array's elements), and then the address
  is the 4 or 16 bytes that follow the port.
\<close>

theorem decode_address_rejects:
  "(length a < 7 \<longrightarrow> decode_address pinned beyond a ss = (0, if pinned then Zeroed else ss)) \<and>
   (a \<noteq> [] \<and> hd a = 6 \<and> length a < 19 \<longrightarrow>
      decode_address pinned beyond a ss = (0, if pinned then Zeroed else ss)) \<and>
   (a \<noteq> [] \<and> hd a \<noteq> 4 \<and> hd a \<noteq> 6 \<longrightarrow>
      decode_address pinned beyond a ss = (0, if pinned then Zeroed else ss)) \<and>
   (fst (decode_address pinned beyond a ss) \<noteq> 0 \<longleftrightarrow>
      pinned \<and> a \<noteq> [] \<and> (hd a = 4 \<and> 7 \<le> length a \<or> hd a = 6 \<and> 19 \<le> length a)) \<and>
   (pinned \<and> a \<noteq> [] \<and> hd a = 4 \<and> 7 \<le> length a \<longrightarrow>
      decode_address pinned beyond a ss =
        (sizeof_sockaddr_in,
         Sockaddr_in (push_bit 8 (ucast (a ! 1)) OR ucast (a ! 2)) (take 4 (drop 3 a)))) \<and>
   (pinned \<and> a \<noteq> [] \<and> hd a = 6 \<and> 19 \<le> length a \<longrightarrow>
      decode_address pinned beyond a ss =
        (sizeof_sockaddr_in6,
         Sockaddr_in6 (push_bit 8 (ucast (a ! 1)) OR ucast (a ! 2)) (take 16 (drop 3 a))))"
  by (cases a)
     (auto simp: decode_address_def Let_def read_byte_def read_bytes_inside
                 sizeof_sockaddr_in_def sizeof_sockaddr_in6_def)

theorem decode_address_rejects_witness:
  "decode_address True (\<lambda>_. 4) [4, 0x1F, 0x90, 127, 0, 0] Uninitialised = (0, Zeroed) \<and>
   decode_address True (\<lambda>_. 0) [6, 0x1F, 0x90, 0, 0, 0, 0, 0, 0, 0] Uninitialised = (0, Zeroed) \<and>
   decode_address True (\<lambda>_. 0) [2, 0x1F, 0x90, 127, 0, 0, 1] Uninitialised = (0, Zeroed) \<and>
   decode_address True (\<lambda>_. 0) [4, 0x1F, 0x90, 127, 0, 0, 1] Uninitialised =
     (16, Sockaddr_in 8080 [127, 0, 0, 1])"
  using decode_address_rejects [of "[4, 0x1F, 0x90, 127, 0, 0]" True "\<lambda>_. 4" Uninitialised]
        decode_address_rejects [of "[6, 0x1F, 0x90, 0, 0, 0, 0, 0, 0, 0]" True "\<lambda>_. 0" Uninitialised]
        decode_address_rejects [of "[2, 0x1F, 0x90, 127, 0, 0, 1]" True "\<lambda>_. 0" Uninitialised]
        decode_address_rejects [of "[4, 0x1F, 0x90, 127, 0, 0, 1]" True "\<lambda>_. 0" Uninitialised]
  by (simp add: sizeof_sockaddr_in_def)

subsection \<open>Packet header info\<close>

lemma and_ff_ucast: "(ucast ((x :: 32 word) AND 0xFF) :: byte) = ucast x"
proof -
  have "(0xFF :: 32 word) = mask 8" by (simp add: mask_eq_exp_minus_1)
  then have "x AND 0xFF = take_bit 8 x" by (simp only: take_bit_eq_mask)
  then show ?thesis
    by (simp only:) (rule bit_word_eqI, auto simp: bit_simps)
qed

lemma SetByteArrayRegion_at:
  "length pre = start \<Longrightarrow> len \<le> length buf \<Longrightarrow>
   SetByteArrayRegion (pre @ replicate (len + n) 0) start len buf = pre @ take len buf @ replicate n 0"
  by (simp add: SetByteArrayRegion_def)

lemma SetByteArrayRegion_at1:
  "length pre = start \<Longrightarrow>
   SetByteArrayRegion (pre @ replicate (Suc n) 0) start (Suc 0) [b] = pre @ [b] @ replicate n 0"
  using SetByteArrayRegion_at [of pre start "Suc 0" "[b]" n] by simp

lemma header_info_result:
  assumes "GetDirectBufferAddress buf = Some data" and "0 \<le> hi_rc r" and "array_ok"
    and d: "dcid_len r \<le> length (dcid r)" and s: "scid_len r \<le> length (scid r)"
    and t: "token_len r \<le> length (token r)"
  shows "QuicheNative_quiche_header_info r array_ok buf len =
     Some (be32 (version r) @ [ty r]
           @ [of_nat (dcid_len r)] @ take (dcid_len r) (dcid r)
           @ [of_nat (scid_len r)] @ take (scid_len r) (scid r)
           @ [of_nat (token_len r)] @ take (token_len r) (token r))"
proof -
  let ?z = "\<lambda>n. replicate n (0 :: byte)"
  let ?V = "be32 (version r)"
  let ?D = "take (dcid_len r) (dcid r)"
  let ?S = "take (scid_len r) (scid r)"
  let ?T = "take (token_len r) (token r)"
  let ?dl = "of_nat (dcid_len r) :: byte"
  let ?sl = "of_nat (scid_len r) :: byte"
  let ?tl = "of_nat (token_len r) :: byte"
  have V: "[ucast (drop_bit 24 (version r) AND 0xFF),
            ucast (drop_bit 16 (version r) AND 0xFF),
            ucast (drop_bit 8 (version r) AND 0xFF),
            ucast (version r AND 0xFF)] = ?V" and lV: "length ?V = 4"
    by (simp_all add: be32_def and_ff_ucast)
  have lD: "length ?D = dcid_len r" and lS: "length ?S = scid_len r"
    using d s by simp_all
  have n0: "4 + 1 + 1 + dcid_len r + 1 + scid_len r + 1 + token_len r
            = 4 + (Suc (Suc (dcid_len r + Suc (scid_len r + Suc (token_len r + 0)))))"
    by simp
  have r1: "SetByteArrayRegion ([] @ ?z (4 + (Suc (Suc (dcid_len r + Suc (scid_len r + Suc (token_len r + 0))))))) 0 4 ?V
            = [] @ take 4 ?V @ ?z (Suc (Suc (dcid_len r + Suc (scid_len r + Suc (token_len r + 0)))))"
    by (rule SetByteArrayRegion_at) (simp_all add: lV)
  have r2: "SetByteArrayRegion (?V @ ?z (Suc (Suc (dcid_len r + Suc (scid_len r + Suc (token_len r + 0)))))) 4 (Suc 0) [ty r]
            = ?V @ [ty r] @ ?z (Suc (dcid_len r + Suc (scid_len r + Suc (token_len r + 0))))"
    by (rule SetByteArrayRegion_at1) (simp add: lV)
  have r3: "SetByteArrayRegion ((?V @ [ty r]) @ ?z (Suc (dcid_len r + Suc (scid_len r + Suc (token_len r + 0))))) 5 (Suc 0) [?dl]
            = (?V @ [ty r]) @ [?dl] @ ?z (dcid_len r + Suc (scid_len r + Suc (token_len r + 0)))"
    by (rule SetByteArrayRegion_at1) (simp add: lV)
  have r4: "SetByteArrayRegion ((?V @ [ty r] @ [?dl]) @ ?z (dcid_len r + Suc (scid_len r + Suc (token_len r + 0)))) 6 (dcid_len r) (dcid r)
            = (?V @ [ty r] @ [?dl]) @ ?D @ ?z (Suc (scid_len r + Suc (token_len r + 0)))"
    by (rule SetByteArrayRegion_at) (simp_all add: lV d)
  have r5: "SetByteArrayRegion ((?V @ [ty r] @ [?dl] @ ?D) @ ?z (Suc (scid_len r + Suc (token_len r + 0)))) (6 + dcid_len r) (Suc 0) [?sl]
            = (?V @ [ty r] @ [?dl] @ ?D) @ [?sl] @ ?z (scid_len r + Suc (token_len r + 0))"
    by (rule SetByteArrayRegion_at1) (use d in \<open>simp add: lV\<close>)
  have r6: "SetByteArrayRegion ((?V @ [ty r] @ [?dl] @ ?D @ [?sl]) @ ?z (scid_len r + Suc (token_len r + 0))) (7 + dcid_len r) (scid_len r) (scid r)
            = (?V @ [ty r] @ [?dl] @ ?D @ [?sl]) @ ?S @ ?z (Suc (token_len r + 0))"
    by (rule SetByteArrayRegion_at) (use d s in \<open>simp_all add: lV\<close>)
  have r7: "SetByteArrayRegion ((?V @ [ty r] @ [?dl] @ ?D @ [?sl] @ ?S) @ ?z (Suc (token_len r + 0))) (7 + dcid_len r + scid_len r) (Suc 0) [?tl]
            = (?V @ [ty r] @ [?dl] @ ?D @ [?sl] @ ?S) @ [?tl] @ ?z (token_len r + 0)"
    by (rule SetByteArrayRegion_at1) (use d s in \<open>simp add: lV\<close>)
  have r8: "SetByteArrayRegion ((?V @ [ty r] @ [?dl] @ ?D @ [?sl] @ ?S @ [?tl]) @ ?z (token_len r + 0)) (8 + dcid_len r + scid_len r) (token_len r) (token r)
            = (?V @ [ty r] @ [?dl] @ ?D @ [?sl] @ ?S @ [?tl]) @ ?T @ ?z 0"
    by (rule SetByteArrayRegion_at) (use d s t in \<open>simp_all add: lV\<close>)
  show ?thesis
    unfolding QuicheNative_quiche_header_info_def Let_def NewByteArray_def V n0
    using assms(1-3) r1 r2 r3 r4 r5 r6 r7 r8
    by (simp add: lV add.assoc)
qed

text \<open>
  C5. When the buffer is direct, quiche parses the header (\<open>hi_rc \<ge> 0\<close>) and reports
  lengths within the capacities it was given (\<^verbatim>\<open>QUICHE_MAX_CONN_ID_LEN\<close> for the two
  connection ids, the fixed 64 bytes for the token), and the JVM allocates the result, the
  result is the version in four big-endian bytes, the type byte, then the destination
  connection id, the source connection id and the token, each behind its one-byte length.
  Its length is \<open>4 + 1 + 1 + dcid_len + 1 + scid_len + 1 + token_len\<close>, and the token part
  is at most 64 bytes.
\<close>

theorem header_info_layout:
  assumes "GetDirectBufferAddress buf = Some data" and "0 \<le> hi_rc r" and "array_ok"
    and "length (dcid r) = QUICHE_MAX_CONN_ID_LEN" and "dcid_len r \<le> QUICHE_MAX_CONN_ID_LEN"
    and "length (scid r) = QUICHE_MAX_CONN_ID_LEN" and "scid_len r \<le> QUICHE_MAX_CONN_ID_LEN"
    and "length (token r) = sizeof_token" and "token_len r \<le> sizeof_token"
  shows "QuicheNative_quiche_header_info r array_ok buf len =
           Some (be32 (version r) @ [ty r]
                 @ [of_nat (dcid_len r)] @ take (dcid_len r) (dcid r)
                 @ [of_nat (scid_len r)] @ take (scid_len r) (scid r)
                 @ [of_nat (token_len r)] @ take (token_len r) (token r)) \<and>
         length (the (QuicheNative_quiche_header_info r array_ok buf len)) =
           4 + 1 + 1 + dcid_len r + 1 + scid_len r + 1 + token_len r \<and>
         length (take (token_len r) (token r)) \<le> 64"
proof -
  have d: "dcid_len r \<le> length (dcid r)" and s: "scid_len r \<le> length (scid r)"
    and t: "token_len r \<le> length (token r)"
    using assms by simp_all
  have res: "QuicheNative_quiche_header_info r array_ok buf len =
     Some (be32 (version r) @ [ty r]
           @ [of_nat (dcid_len r)] @ take (dcid_len r) (dcid r)
           @ [of_nat (scid_len r)] @ take (scid_len r) (scid r)
           @ [of_nat (token_len r)] @ take (token_len r) (token r))"
    using assms(1-3) d s t by (rule header_info_result)
  have "length (the (QuicheNative_quiche_header_info r array_ok buf len)) =
           4 + 1 + 1 + dcid_len r + 1 + scid_len r + 1 + token_len r"
    using d s t by (simp add: res be32_def)
  moreover have "length (take (token_len r) (token r)) \<le> 64"
    using assms(9) by (simp add: sizeof_token_def)
  ultimately show ?thesis
    using res by simp
qed

theorem header_info_layout_witness:
  "QuicheNative_quiche_header_info
     \<lparr>hi_rc = 0, version = 0x00000001, ty = 1,
      scid = [0x11, 0x12, 0x13, 0x14, 0x15, 0x16, 0x17, 0x18] @ replicate 12 0xEE, scid_len = 8,
      dcid = [0x21, 0x22, 0x23, 0x24, 0x25, 0x26, 0x27, 0x28] @ replicate 12 0xEE, dcid_len = 8,
      token = replicate 64 0xEE, token_len = 0\<rparr>
     True \<lparr>direct_address = Some 0x7F0000001000, jposition = 0, backing = No_array_method\<rparr> 1200
   = Some [0, 0, 0, 1,  1,  8, 0x21, 0x22, 0x23, 0x24, 0x25, 0x26, 0x27, 0x28,
           8, 0x11, 0x12, 0x13, 0x14, 0x15, 0x16, 0x17, 0x18,  0] \<and>
   length (the (QuicheNative_quiche_header_info
     \<lparr>hi_rc = 0, version = 0x00000001, ty = 1,
      scid = [0x11, 0x12, 0x13, 0x14, 0x15, 0x16, 0x17, 0x18] @ replicate 12 0xEE, scid_len = 8,
      dcid = [0x21, 0x22, 0x23, 0x24, 0x25, 0x26, 0x27, 0x28] @ replicate 12 0xEE, dcid_len = 8,
      token = replicate 64 0xEE, token_len = 0\<rparr>
     True \<lparr>direct_address = Some 0x7F0000001000, jposition = 0, backing = No_array_method\<rparr> 1200))
   = 24"
proof -
  let ?r = "\<lparr>hi_rc = 0, version = 0x00000001, ty = 1,
      scid = [0x11, 0x12, 0x13, 0x14, 0x15, 0x16, 0x17, 0x18] @ replicate 12 0xEE, scid_len = 8,
      dcid = [0x21, 0x22, 0x23, 0x24, 0x25, 0x26, 0x27, 0x28] @ replicate 12 0xEE, dcid_len = 8,
      token = replicate 64 0xEE, token_len = 0\<rparr>"
  let ?b = "\<lparr>direct_address = Some (0x7F0000001000 :: jlong), jposition = 0,
             backing = No_array_method\<rparr>"
  have b: "GetDirectBufferAddress ?b = Some 0x7F0000001000"
    by (simp add: GetDirectBufferAddress_def)
  have h: "0 \<le> hi_rc ?r" "length (dcid ?r) = QUICHE_MAX_CONN_ID_LEN"
    "dcid_len ?r \<le> QUICHE_MAX_CONN_ID_LEN" "length (scid ?r) = QUICHE_MAX_CONN_ID_LEN"
    "scid_len ?r \<le> QUICHE_MAX_CONN_ID_LEN" "length (token ?r) = sizeof_token"
    "token_len ?r \<le> sizeof_token"
    by (simp_all add: QUICHE_MAX_CONN_ID_LEN_def sizeof_token_def)
  have "QuicheNative_quiche_header_info ?r True ?b 1200 =
     Some (be32 (version ?r) @ [ty ?r]
           @ [of_nat (dcid_len ?r)] @ take (dcid_len ?r) (dcid ?r)
           @ [of_nat (scid_len ?r)] @ take (scid_len ?r) (scid ?r)
           @ [of_nat (token_len ?r)] @ take (token_len ?r) (token ?r))"
    using header_info_layout [OF b h(1) TrueI h(2-7), of 1200] by simp
  then show ?thesis
    by (simp add: be32_def)
qed

subsection \<open>Buffers that are not addressable\<close>

text \<open>
  C9. When \<^verbatim>\<open>GetDirectBufferAddress\<close> gives \<^verbatim>\<open>NULL\<close> for the caller's buffer,
  \<^verbatim>\<open>quiche_conn_recv\<close>, \<^verbatim>\<open>quiche_conn_send\<close>, \<^verbatim>\<open>quiche_conn_stream_recv\<close>,
  \<^verbatim>\<open>quiche_conn_stream_send\<close> and \<^verbatim>\<open>quiche_h3_recv_body\<close> return \<open>-1\<close> and leave the
  world as it was: no call to quiche is made, whatever the handles are.
\<close>

theorem unaddressable_buffer_rejected:
  assumes "GetDirectBufferAddress buf = None"
  shows "QuicheNative_quiche_conn_recv recv_len from_env to_env conn buf len from_addr to_addr w
           = Inr (- 1, w) \<and>
         QuicheNative_quiche_conn_send written conn buf len w = Inr (- 1, w) \<and>
         QuicheNative_quiche_conn_stream_recv resp conn stream_id buf len w
           = Inr ((- 1, None), w) \<and>
         QuicheNative_quiche_conn_stream_send sent conn stream_id buf len fin w = Inr (- 1, w) \<and>
         QuicheNative_quiche_h3_recv_body body_len h3 conn stream_id buf len w = Inr (- 1, w)"
  using assms
  by (simp add: QuicheNative_quiche_conn_recv_def QuicheNative_quiche_conn_send_def
        QuicheNative_quiche_conn_stream_recv_def QuicheNative_quiche_conn_stream_send_def
        QuicheNative_quiche_h3_recv_body_def)

theorem unaddressable_buffer_rejected_witness:
  "QuicheNative_quiche_conn_recv 1200 (True, \<lambda>_. 0) (True, \<lambda>_. 0) 0x1000 heap_buffer 1200
       [4, 0x1F, 0x90, 127, 0, 0, 1] [4, 0x01, 0xBB, 127, 0, 0, 1] example_world
     = Inr (- 1, example_world) \<and>
   QuicheNative_quiche_conn_send 1200 0x1000 heap_buffer 1350 example_world
     = Inr (- 1, example_world) \<and>
   QuicheNative_quiche_conn_stream_recv (5, True) 0x1000 4 heap_buffer 100 example_world
     = Inr ((- 1, None), example_world) \<and>
   QuicheNative_quiche_conn_stream_send 5 0x1000 4 heap_buffer 5 True example_world
     = Inr (- 1, example_world) \<and>
   QuicheNative_quiche_h3_recv_body 5 0x2000 0x1000 4 heap_buffer 100 example_world
     = Inr (- 1, example_world)"
proof -
  have h: "GetDirectBufferAddress heap_buffer = None"
    by (simp add: GetDirectBufferAddress_def heap_buffer_def)
  show ?thesis
    by (simp add: unaddressable_buffer_rejected [OF h])
qed

subsection \<open>Readable streams\<close>

lemma readable_loop_ids:
  "count \<le> 256 \<Longrightarrow>
   fst (snd (readable_loop iter ids count)) = ids @ take (256 - count) iter \<and>
   snd (snd (readable_loop iter ids count)) = count + min (256 - count) (length iter)"
proof (induction iter arbitrary: ids count)
  case Nil
  then show ?case by simp
next
  case (Cons x iter)
  show ?case
  proof (cases "count < 256")
    case True
    then have "256 - count = Suc (256 - (count + 1))" by simp
    with True Cons.IH [of "count + 1" "ids @ [x]"] show ?thesis by simp
  next
    case False
    with Cons.prems show ?thesis by simp
  qed
qed

lemma map_nth_prefix: "n \<le> length xs \<Longrightarrow> map (\<lambda>i. xs ! i) [0 ..< n] = take n xs"
  by (simp add: list_eq_iff_nth_eq)

text \<open>
  C10. On a live connection, \<^verbatim>\<open>quiche_conn_readable\<close> asks quiche for the iterator and
  returns the stream ids it yields, in its order, up to the first 256; what the iterator
  holds beyond them is dropped, and a \<^verbatim>\<open>NULL\<close> iterator gives the empty array. The
  method returns in every case.
\<close>

theorem readable_first_256:
  assumes "objects w conn = Some Connection"
  shows "QuicheNative_quiche_conn_readable iter conn w =
           Inr (case iter of None \<Rightarrow> [] | Some ids \<Rightarrow> take 256 ids,
                w\<lparr>calls := calls w @ [Quiche_conn_readable conn]\<rparr>)"
proof (cases iter)
  case None
  with assms show ?thesis
    by (simp add: QuicheNative_quiche_conn_readable_def engine_def)
next
  case (Some it)
  have ids: "fst (snd (readable_loop it [] 0)) = take 256 it"
    and count: "snd (snd (readable_loop it [] 0)) = min 256 (length it)"
    using readable_loop_ids [of 0 it "[]"] by simp_all
  have "map (\<lambda>i. take 256 it ! i) [0 ..< min 256 (length it)] = take 256 it"
    using map_nth_prefix [of "min 256 (length it)" "take 256 it"] by (simp add: min_def)
  with Some assms ids count show ?thesis
    by (simp add: QuicheNative_quiche_conn_readable_def engine_def Let_def)
qed

theorem readable_first_256_witness:
  "QuicheNative_quiche_conn_readable (Some (map of_nat [0 ..< 300])) 0x1000 example_world =
     Inr (map of_nat [0 ..< 256], example_world\<lparr>calls := [Quiche_conn_readable 0x1000]\<rparr>) \<and>
   QuicheNative_quiche_conn_readable (Some [0, 4, 8]) 0x1000 example_world =
     Inr ([0, 4, 8], example_world\<lparr>calls := [Quiche_conn_readable 0x1000]\<rparr>) \<and>
   QuicheNative_quiche_conn_readable None 0x1000 example_world =
     Inr ([], example_world\<lparr>calls := [Quiche_conn_readable 0x1000]\<rparr>)"
proof -
  have live: "objects example_world 0x1000 = Some Connection"
    by (simp add: example_world_def)
  have c: "calls example_world = []"
    by (simp add: example_world_def)
  have t: "take 256 (map of_nat [0 ..< 300]) = (map of_nat [0 ..< 256] :: jlong list)"
    by (simp add: take_map)
  show ?thesis
    using readable_first_256 [OF live, of "Some (map of_nat [0 ..< 300])"]
          readable_first_256 [OF live, of "Some [0, 4, 8]"]
          readable_first_256 [OF live, of None]
    by (simp add: c t)
qed

subsection \<open>Zero-length sends that finish a stream\<close>

lemma engine_live1:
  "objects w p = Some k \<Longrightarrow> engine c [(p, k)] w = Inr (w\<lparr>calls := calls w @ [c]\<rparr>)"
  by (simp add: engine_def)

lemma engine_live2:
  "objects w p = Some k \<Longrightarrow> objects w q = Some k' \<Longrightarrow>
   engine c [(p, k), (q, k')] w = Inr (w\<lparr>calls := calls w @ [c]\<rparr>)"
  by (simp add: engine_def)


text \<open>
  C8, as the code has it. A \<^verbatim>\<open>quiche_conn_stream_send\<close> with length 0 and
  \<open>fin = true\<close> on a live connection, with a buffer that \<^verbatim>\<open>GetDirectBufferAddress\<close>
  resolves, calls quiche with length 0 and the fin flag set and returns quiche's answer.
  A \<^verbatim>\<open>quiche_h3_send_body\<close> with length 0 and \<open>fin = true\<close> on a live session and
  connection calls quiche with a \<^verbatim>\<open>NULL\<close> pointer, length 0 and the fin flag set, and
  returns quiche's answer, whatever the buffer is.
\<close>

theorem zero_length_fin_forwarded:
  "(objects w conn = Some Connection \<and> GetDirectBufferAddress buf = Some data \<longrightarrow>
      QuicheNative_quiche_conn_stream_send sent conn stream_id buf 0 True w =
        Inr (ucast sent,
             w\<lparr>calls := calls w @ [Quiche_conn_stream_send conn stream_id data 0 True]\<rparr>)) \<and>
   (objects w h3 = Some HttpSession \<and> objects w conn = Some Connection \<longrightarrow>
      QuicheNative_quiche_h3_send_body written h3 conn stream_id buf 0 True w =
        Inr (ucast written,
             w\<lparr>calls := calls w @ [Quiche_h3_send_body h3 conn stream_id None 0 True]\<rparr>))"
  by (simp add: QuicheNative_quiche_conn_stream_send_def QuicheNative_quiche_h3_send_body_def
        engine_live1 engine_live2)

theorem zero_length_fin_forwarded_witness:
  "QuicheNative_quiche_conn_stream_send 0 0x1000 4 direct_buffer 0 True example_world =
     Inr (0, example_world\<lparr>calls :=
            [Quiche_conn_stream_send 0x1000 4 0x7F0000001000 0 True]\<rparr>) \<and>
   QuicheNative_quiche_h3_send_body 0 0x2000 0x1000 4 heap_buffer 0 True example_world =
     Inr (0, example_world\<lparr>calls := [Quiche_h3_send_body 0x2000 0x1000 4 None 0 True]\<rparr>)"
proof -
  have live: "objects example_world 0x1000 = Some Connection"
    "objects example_world 0x2000 = Some HttpSession"
    and c: "calls example_world = []"
    by (simp_all add: example_world_def)
  have b: "GetDirectBufferAddress direct_buffer = Some 0x7F0000001000"
    by (simp add: GetDirectBufferAddress_def direct_buffer_def)
  show ?thesis
    using zero_length_fin_forwarded
            [of example_world "0x1000" direct_buffer "0x7F0000001000" 0 4 "0x2000" 0]
          zero_length_fin_forwarded
            [of example_world "0x1000" heap_buffer "0x7F0000001000" 0 4 "0x2000" 0]
    by (simp add: live b c)
qed

text \<open>
  Without the condition on the buffer the statement fails for
  \<^verbatim>\<open>quiche_conn_stream_send\<close>: given a heap buffer, the method returns \<open>-1\<close> and
  quiche is not called, so the stream is not finished.
\<close>

theorem zero_length_fin_counterexample:
  "QuicheNative_quiche_conn_stream_send 0 0x1000 4 heap_buffer 0 True example_world =
     Inr (- 1, example_world) \<and>
   calls example_world = []"
  by (simp add: QuicheNative_quiche_conn_stream_send_def GetDirectBufferAddress_def
        heap_buffer_def example_world_def)

subsection \<open>Stale handles\<close>



lemma h3_conn_free_live:
  "objects w h = Some HttpSession \<Longrightarrow>
   QuicheNative_quiche_h3_conn_free t h w =
     Inr (w\<lparr>calls := calls w @ [Quiche_h3_conn_free h] @
                 (case current_event w t of None \<Rightarrow> [] | Some ev \<Rightarrow> [Quiche_h3_event_free ev]),
            objects := (objects w)(h := None),
            current_event := (current_event w)(t := None)\<rparr>)"
  by (cases "current_event w t")
     (simp_all add: QuicheNative_quiche_h3_conn_free_def quiche_h3_conn_free_def engine_live1
        quiche_h3_event_free_def fun_upd_idem)








subsection \<open>The event slot\<close>

lemma h3_conn_poll_live:
  assumes "objects w h3 = Some HttpSession" and "objects w conn = Some Connection"
  shows "QuicheNative_quiche_h3_conn_poll t resp array_ok h3 conn w =
     (let w2 = w\<lparr>calls := calls w @
                     (case current_event w t of None \<Rightarrow> [] | Some old \<Rightarrow> [Quiche_h3_event_free old]) @
                     [Quiche_h3_conn_poll h3 conn],
                  current_event := (current_event w)(t := None)\<rparr>
      in if fst resp <s 0 then Inr (None, w2)
         else case snd resp of
                None \<Rightarrow> Inl Null_event
              | Some e \<Rightarrow>
                  Inr (if array_ok
                       then Some [fst resp,
                                  case e of H3_HEADERS list \<Rightarrow> 0 | H3_DATA \<Rightarrow> 1 | H3_FINISHED \<Rightarrow> 2
                                  | H3_GOAWAY \<Rightarrow> 3 | H3_RESET \<Rightarrow> 4 | H3_OTHER \<Rightarrow> - 1]
                       else None,
                       w2\<lparr>current_event := (current_event w)(t := Some e)\<rparr>))"
proof (cases "current_event w t")
  case None
  with assms show ?thesis
    by (cases "snd resp")
       (simp_all add: QuicheNative_quiche_h3_conn_poll_def engine_def Let_def fun_upd_idem)
next
  case (Some old)
  with assms show ?thesis
    by (cases "snd resp")
       (simp_all add: QuicheNative_quiche_h3_conn_poll_def engine_def Let_def
          quiche_h3_event_free_def)
qed

text \<open>
  C3, as the code has it. The slot \<^verbatim>\<open>current_event\<close> belongs to the thread, not to the
  session: it holds at most one event, whichever session was polled last on that thread.
  Freeing a live session on thread \<open>t\<close> frees the session and then releases whatever the
  slot of \<open>t\<close> holds. A poll of a live session on thread \<open>t\<close> that returns has released
  whatever the slot of \<open>t\<close> held, then asked quiche, and leaves in the slot of \<open>t\<close> the
  event quiche gave (nothing when quiche's answer is negative); a poll returns whenever
  quiche's answer is negative or comes with an event. In both cases the handle of the
  session does not matter for what is released, and the slots of other threads stay as
  they were.
\<close>

theorem event_slot_per_thread:
  assumes "objects w h3 = Some HttpSession" and "objects w conn = Some Connection"
  shows "QuicheNative_quiche_h3_conn_free t h3 w =
           Inr (w\<lparr>calls := calls w @ [Quiche_h3_conn_free h3] @
                       (case current_event w t of None \<Rightarrow> []
                        | Some ev \<Rightarrow> [Quiche_h3_event_free ev]),
                  objects := (objects w)(h3 := None),
                  current_event := (current_event w)(t := None)\<rparr>) \<and>
         (\<forall>r w'. QuicheNative_quiche_h3_conn_poll t resp array_ok h3 conn w = Inr (r, w') \<longrightarrow>
            calls w' = calls w @
                       (case current_event w t of None \<Rightarrow> []
                        | Some old \<Rightarrow> [Quiche_h3_event_free old]) @
                       [Quiche_h3_conn_poll h3 conn] \<and>
            current_event w' = (current_event w)(t := if fst resp <s 0 then None else snd resp) \<and>
            objects w' = objects w) \<and>
         (fst resp <s 0 \<or> snd resp \<noteq> None \<longrightarrow>
            (\<exists>r w'. QuicheNative_quiche_h3_conn_poll t resp array_ok h3 conn w = Inr (r, w')))"
proof (intro conjI allI impI)
  show "QuicheNative_quiche_h3_conn_free t h3 w =
           Inr (w\<lparr>calls := calls w @ [Quiche_h3_conn_free h3] @
                       (case current_event w t of None \<Rightarrow> []
                        | Some ev \<Rightarrow> [Quiche_h3_event_free ev]),
                  objects := (objects w)(h3 := None),
                  current_event := (current_event w)(t := None)\<rparr>)"
    using assms(1) by (rule h3_conn_free_live)
next
  fix r w'
  assume "QuicheNative_quiche_h3_conn_poll t resp array_ok h3 conn w = Inr (r, w')"
  then have *: "(let w2 = w\<lparr>calls := calls w @
                     (case current_event w t of None \<Rightarrow> [] | Some old \<Rightarrow> [Quiche_h3_event_free old]) @
                     [Quiche_h3_conn_poll h3 conn],
                  current_event := (current_event w)(t := None)\<rparr>
      in if fst resp <s 0 then Inr (None, w2)
         else case snd resp of
                None \<Rightarrow> Inl Null_event
              | Some e \<Rightarrow>
                  Inr (if array_ok
                       then Some [fst resp,
                                  case e of H3_HEADERS list \<Rightarrow> 0 | H3_DATA \<Rightarrow> 1 | H3_FINISHED \<Rightarrow> 2
                                  | H3_GOAWAY \<Rightarrow> 3 | H3_RESET \<Rightarrow> 4 | H3_OTHER \<Rightarrow> - 1]
                       else None,
                       w2\<lparr>current_event := (current_event w)(t := Some e)\<rparr>)) = Inr (r, w')"
    by (simp only: h3_conn_poll_live [OF assms])
  show "calls w' = calls w @
                       (case current_event w t of None \<Rightarrow> []
                        | Some old \<Rightarrow> [Quiche_h3_event_free old]) @
                       [Quiche_h3_conn_poll h3 conn]"
    using * by (auto simp: Let_def split: if_splits option.splits)
  show "current_event w' = (current_event w)(t := if fst resp <s 0 then None else snd resp)"
    using * by (auto simp: Let_def split: if_splits option.splits)
  show "objects w' = objects w"
    using * by (auto simp: Let_def split: if_splits option.splits)
next
  assume "fst resp <s 0 \<or> snd resp \<noteq> None"
  then show "\<exists>r w'. QuicheNative_quiche_h3_conn_poll t resp array_ok h3 conn w = Inr (r, w')"
    by (auto simp: h3_conn_poll_live [OF assms] Let_def)
qed


lemma sless_examples: "\<not> (4 :: jlong) <s 0" "(- 1 :: jlong) <s 0" "\<not> (0 :: jlong) <s 0"
  by (simp_all add: word_sless_alt)

lemma replicate_2: "replicate 2 x = [x, x]"
  by (simp add: numeral_2_eq_2)

theorem event_slot_per_thread_witness:
  "QuicheNative_quiche_h3_conn_free 1 0x3000 example_world =
     Inr (example_world\<lparr>calls := [Quiche_h3_conn_free 0x3000],
                         objects := (objects example_world)(0x3000 := None)\<rparr>) \<and>
   (\<exists>r w'. QuicheNative_quiche_h3_conn_poll 1 (4, Some (H3_HEADERS [([0x61], [0x62])])) True
              0x3000 0x1000 example_world = Inr (r, w') \<and>
           calls w' = [Quiche_h3_conn_poll 0x3000 0x1000] \<and>
           current_event w' 1 = Some (H3_HEADERS [([0x61], [0x62])]) \<and>
           current_event w' 2 = None)"
proof -
  have live: "objects example_world 0x3000 = Some HttpSession"
    "objects example_world 0x1000 = Some Connection"
    and e: "current_event example_world = (\<lambda>_. None)" "calls example_world = []"
    by (simp_all add: example_world_def)
  note inst = event_slot_per_thread
    [OF live, of 1 "(4, Some (H3_HEADERS [([0x61], [0x62])]))" True]
  from inst obtain r w' where
    p: "QuicheNative_quiche_h3_conn_poll 1 (4, Some (H3_HEADERS [([0x61], [0x62])])) True
          0x3000 0x1000 example_world = Inr (r, w')"
    by auto
  with inst have "calls w' = [Quiche_h3_conn_poll 0x3000 0x1000]"
    and "current_event w' = (\<lambda>_. None)(1 := Some (H3_HEADERS [([0x61], [0x62])]))"
    by (simp_all add: e sless_examples)
  with p inst show ?thesis
    by (auto simp: e fun_upd_idem sless_examples)
qed

text \<open>
  Two sessions on one thread do interfere. Session \<open>0x2000\<close> is polled on thread 1 and a Headers event is
  cached, which \<^verbatim>\<open>quiche_h3_event_headers\<close> can read. Freeing the other session
  \<open>0x3000\<close> on that thread frees that session first and then releases the cached event;
  polling the other session releases it as well. Either way the header read for session
  \<open>0x2000\<close> then finds nothing.
\<close>

theorem event_slot_counterexample:
  "(let ev = H3_HEADERS [([0x61], [0x62])];
        wA = example_world\<lparr>calls := [Quiche_h3_conn_poll 0x2000 0x1000],
                            current_event := (\<lambda>_. None)(1 := Some ev)\<rparr>;
        wB = wA\<lparr>calls := [Quiche_h3_conn_poll 0x2000 0x1000, Quiche_h3_conn_free 0x3000,
                             Quiche_h3_event_free ev],
                  objects := (objects example_world)(0x3000 := None),
                  current_event := (\<lambda>_. None)\<rparr>;
        wC = wA\<lparr>calls := [Quiche_h3_conn_poll 0x2000 0x1000, Quiche_h3_event_free ev,
                             Quiche_h3_conn_poll 0x3000 0x1000],
                  current_event := (\<lambda>_. None)\<rparr>
    in QuicheNative_quiche_h3_conn_poll 1 (4, Some ev) True 0x2000 0x1000 example_world =
         Inr (Some [4, 0], wA) \<and>
       QuicheNative_quiche_h3_event_headers 1 [] True 0x2000 wA =
         Inr (Some [Some [0x61], Some [0x62]]) \<and>
       QuicheNative_quiche_h3_conn_free 1 0x3000 wA = Inr wB \<and>
       QuicheNative_quiche_h3_event_headers 1 [] True 0x2000 wB = Inr None \<and>
       QuicheNative_quiche_h3_conn_poll 1 (- 1, None) True 0x3000 0x1000 wA = Inr (None, wC) \<and>
       QuicheNative_quiche_h3_event_headers 1 [] True 0x2000 wC = Inr None)"
  by (simp add: Let_def example_world_def
        QuicheNative_quiche_h3_conn_poll_def QuicheNative_quiche_h3_conn_free_def
        quiche_h3_conn_free_def quiche_h3_event_free_def engine_def
        QuicheNative_quiche_h3_event_headers_def quiche_h3_event_for_each_header_def
        header_cb_def alloc_def NewObjectArray_def fill_result_def NewStringUTF_def
        fun_upd_idem sless_examples replicate_2)

subsection \<open>The header collector\<close>

lemma alloc_never_fails:
  "False \<notin> set mem \<Longrightarrow> fst (alloc mem) \<and> False \<notin> set (snd (alloc mem))"
  by (cases mem) (auto simp: alloc_def)

lemma header_cb_appends:
  assumes "header_cb name val (hc, mem) = (rc, (hc', mem'))" and "rc = 0"
  shows "hc_names hc' = hc_names hc @ [name @ [0]] \<and>
         hc_values hc' = hc_values hc @ [val @ [0]] \<and>
         hc_count hc' = hc_count hc + 1"
  using assms
  by (auto simp: header_cb_def Let_def split: if_splits)

lemma header_cb_fails:
  assumes "header_cb name val (hc, mem) = (rc, (hc', mem'))" and "rc \<noteq> 0"
  shows "rc = - 1"
  using assms
  by (auto simp: header_cb_def Let_def split: if_splits)

lemma header_cb_never_fails:
  assumes "False \<notin> set (answers mem)"
  shows "fst (header_cb name val (hc, mem)) = 0 \<and>
         False \<notin> set (answers (snd (snd (header_cb name val (hc, mem)))))"
proof -
  note a1 = alloc_never_fails [OF assms]
  note a2 = alloc_never_fails [OF a1 [THEN conjunct2]]
  note a3 = alloc_never_fails [OF a2 [THEN conjunct2]]
  note a4 = alloc_never_fails [OF a3 [THEN conjunct2]]
  show ?thesis
    using a1 a2 a3 a4 by (simp add: header_cb_def Let_def)
qed

text \<open>
  The thirty-third header finds the arrays full. When the first \<^verbatim>\<open>realloc\<close> succeeds and
  the second fails, the callback returns \<open>-1\<close> and the block of \<^verbatim>\<open>hc->names\<close> is gone;
  when the first fails and the second succeeds, the block of \<^verbatim>\<open>hc->values\<close> is.
\<close>

lemma header_cb_realloc_half_failed:
  assumes "hc_capacity hc \<le> hc_count hc" and "answers mem = a # b # rest" and "a \<noteq> b"
  shows "header_cb name val (hc, mem) =
           (- 1, (hc, mem\<lparr>answers := rest,
                           names_released := names_released mem \<or> a,
                           values_released := values_released mem \<or> b\<rparr>))"
  using assms by (auto simp: header_cb_def alloc_def Let_def)

lemma for_each_header_collects:
  assumes "for_each_header header_cb hs (hc, mem) = (rc, (hc', mem'))" and "rc = 0"
  shows "hc_names hc' = hc_names hc @ map (\<lambda>h. fst h @ [0]) hs \<and>
         hc_values hc' = hc_values hc @ map (\<lambda>h. snd h @ [0]) hs \<and>
         hc_count hc' = hc_count hc + length hs"
  using assms
proof (induction hs arbitrary: hc mem)
  case Nil
  then show ?case by simp
next
  case (Cons h hs)
  obtain rc1 hc1 mem1 where step: "header_cb (fst h) (snd h) (hc, mem) = (rc1, (hc1, mem1))"
    by (metis prod.exhaust)
  show ?case
  proof (cases "rc1 = 0")
    case True
    with Cons.prems step
    have rest: "for_each_header header_cb hs (hc1, mem1) = (rc, (hc', mem'))"
      by simp
    from header_cb_appends [OF step True] Cons.IH [OF rest Cons.prems(2)]
    show ?thesis by simp
  next
    case False
    with Cons.prems step show ?thesis by simp
  qed
qed

lemma for_each_header_never_fails:
  "False \<notin> set (answers mem) \<Longrightarrow> fst (for_each_header header_cb hs (hc, mem)) = 0"
proof (induction hs arbitrary: hc mem)
  case Nil
  then show ?case by simp
next
  case (Cons h hs)
  obtain rc1 hc1 mem1 where step: "header_cb (fst h) (snd h) (hc, mem) = (rc1, (hc1, mem1))"
    by (metis prod.exhaust)
  from header_cb_never_fails [OF Cons.prems, of "fst h" "snd h" hc] step
  have "rc1 = 0" and "False \<notin> set (answers mem1)" by simp_all
  with step Cons.IH [of mem1 hc1] show ?case by simp
qed

lemma fill_result_prefix:
  "k \<le> n \<Longrightarrow>
   fold (\<lambda>i res. (res[i * 2 := f i])[i * 2 + 1 := g i]) [0 ..< k] (replicate (n * 2) None)
     = concat (map (\<lambda>i. [f i, g i]) [0 ..< k]) @ replicate ((n - k) * 2) None"
proof (induction k)
  case 0
  then show ?case by simp
next
  case (Suc k)
  let ?done = "concat (map (\<lambda>i. [f i, g i]) [0 ..< k])"
  have len: "length ?done = k * 2"
    by (induction k) simp_all
  from Suc.prems have "(n - k) * 2 = Suc (Suc ((n - Suc k) * 2))"
    by (simp add: Suc_diff_Suc)
  then have rest: "replicate ((n - k) * 2) None = None # None # replicate ((n - Suc k) * 2) None"
    by simp
  from Suc have "fold (\<lambda>i res. (res[i * 2 := f i])[i * 2 + 1 := g i]) [0 ..< k] (replicate (n * 2) None)
      = ?done @ None # None # replicate ((n - Suc k) * 2) None"
    by (simp add: rest)
  then show ?case
    using len by (simp add: list_update_append)
qed

lemma flat_headers_map:
  "concat (map (\<lambda>h. [f (fst h), f (snd h)]) hs) = map f (flat_headers hs)"
  by (induction hs) (simp_all add: flat_headers_def)

lemma fill_result_collected:
  assumes "hc_count hc = length hs"
    and "hc_names hc = map (\<lambda>h. fst h @ [0]) hs"
    and "hc_values hc = map (\<lambda>h. snd h @ [0]) hs"
  shows "fill_result dec hc (replicate (hc_count hc * 2) None)
           = map (\<lambda>s. Some (NewStringUTF dec (s @ [0]))) (flat_headers hs)"
proof -
  have "fill_result dec hc (replicate (length hs * 2) None)
          = concat (map (\<lambda>i. [Some (NewStringUTF dec (hc_names hc ! i)),
                               Some (NewStringUTF dec (hc_values hc ! i))]) [0 ..< length hs])"
    using fill_result_prefix [of "length hs" "length hs"
            "\<lambda>i. Some (NewStringUTF dec (hc_names hc ! i))"
            "\<lambda>i. Some (NewStringUTF dec (hc_values hc ! i))"]
    by (simp add: fill_result_def assms(1) Let_def)
  also have "map (\<lambda>i. [Some (NewStringUTF dec (hc_names hc ! i)),
                        Some (NewStringUTF dec (hc_values hc ! i))]) [0 ..< length hs]
             = map (\<lambda>h. [Some (NewStringUTF dec (fst h @ [0])),
                            Some (NewStringUTF dec (snd h @ [0]))]) hs"
  proof (rule nth_equalityI)
    show "length (map (\<lambda>i. [Some (NewStringUTF dec (hc_names hc ! i)),
                                 Some (NewStringUTF dec (hc_values hc ! i))]) [0 ..< length hs])
          = length (map (\<lambda>h. [Some (NewStringUTF dec (fst h @ [0])),
                                  Some (NewStringUTF dec (snd h @ [0]))]) hs)"
      by simp
  next
    fix i
    assume "i < length (map (\<lambda>i. [Some (NewStringUTF dec (hc_names hc ! i)),
                                      Some (NewStringUTF dec (hc_values hc ! i))]) [0 ..< length hs])"
    then have "i < length hs" by simp
    then show "map (\<lambda>i. [Some (NewStringUTF dec (hc_names hc ! i)),
                           Some (NewStringUTF dec (hc_values hc ! i))]) [0 ..< length hs] ! i
               = map (\<lambda>h. [Some (NewStringUTF dec (fst h @ [0])),
                              Some (NewStringUTF dec (snd h @ [0]))]) hs ! i"
      by (simp add: assms(2,3))
  qed
  also have "concat \<dots> = map (\<lambda>s. Some (NewStringUTF dec (s @ [0]))) (flat_headers hs)"
    by (rule flat_headers_map)
  finally show ?thesis
    by (simp add: assms(1))
qed

subsection \<open>Strings\<close>

lemma c_string_terminated: "takeWhile (\<lambda>b. b \<noteq> 0) (s @ [0 :: byte]) = c_string s"
  by (induction s) (simp_all add: c_string_def)

lemma c_string_id: "0 \<notin> set s \<Longrightarrow> c_string s = s"
  by (auto simp: c_string_def takeWhile_eq_all_conv)

text \<open>A Java string's bytes hold no zero byte.\<close>

lemma modified_utf8_no_zero: "modified_utf8 s \<Longrightarrow> 0 \<notin> set s"
  by (induction s rule: modified_utf8.induct) (auto split: if_splits list.splits)

text \<open>
  What \<^verbatim>\<open>NewStringUTF\<close> makes of the C string that \<^verbatim>\<open>header_cb\<close> built from the bytes
  \<open>s\<close>: the string that the bytes before the first zero byte of \<open>s\<close> encode, when they
  are modified UTF-8. When the whole of \<open>s\<close> is modified UTF-8, that is \<open>s\<close> itself.
\<close>

lemma NewStringUTF_terminated:
  "NewStringUTF dec (s @ [0]) =
     (if modified_utf8 (c_string s) then c_string s else dec (c_string s))"
  by (simp add: NewStringUTF_def c_string_terminated)

lemma NewStringUTF_modified_utf8:
  "modified_utf8 s \<Longrightarrow> NewStringUTF dec (s @ [0]) = s"
  by (simp add: NewStringUTF_terminated c_string_id modified_utf8_no_zero)

lemma NewStringUTF_first_zero:
  assumes "0 \<notin> set s"
  shows "NewStringUTF dec ((s @ 0 # rest) @ [0]) = NewStringUTF dec (s @ [0])"
proof -
  from assms
  have "takeWhile (\<lambda>b. b \<noteq> 0) ((s @ 0 # rest) @ [0]) = takeWhile (\<lambda>b. b \<noteq> 0) (s @ [0])"
    by (induction s) simp_all
  then show ?thesis
    by (simp only: NewStringUTF_def)
qed

lemma NewStringUTF_all_modified_utf8:
  "list_all modified_utf8 ss \<Longrightarrow>
   map (\<lambda>s. Some (NewStringUTF dec (s @ [0]))) ss = map Some ss"
  by (induction ss) (simp_all add: NewStringUTF_modified_utf8)

subsection \<open>Reading the cached headers\<close>

text \<open>
  What \<^verbatim>\<open>quiche_h3_event_headers\<close> does when the slot holds a Headers event. When no
  allocation fails it returns the flat array of the event's names and values, in the
  event's order, each the string \<^verbatim>\<open>NewStringUTF\<close> builds of it. Whatever the allocator
  answers, the method returns that array or \<^verbatim>\<open>NULL\<close>, or its cleanup goes through a
  released array.
\<close>

lemma event_headers_cached:
  assumes "current_event w t = Some (H3_HEADERS hs)"
  shows "QuicheNative_quiche_h3_event_headers t mem array_ok h w = Inr None \<or>
         QuicheNative_quiche_h3_event_headers t mem array_ok h w = Inl Use_after_free \<or>
         QuicheNative_quiche_h3_event_headers t mem array_ok h w
           = Inr (Some (map (\<lambda>s. Some (NewStringUTF (jvm_decode w) (s @ [0]))) (flat_headers hs)))"
proof -
  let ?hc0 = "\<lparr>hc_count = 0, hc_capacity = 32, hc_names = [], hc_values = []\<rparr>"
  let ?heap0 = "\<lparr>answers = snd (alloc (snd (alloc mem))), names_released = False,
                  values_released = False\<rparr>"
  obtain rc hc' mem' where
    run: "for_each_header header_cb hs (?hc0, ?heap0) = (rc, (hc', mem'))"
    by (metis prod.exhaust)
  show ?thesis
  proof (cases "fst (alloc mem) \<and> fst (alloc (snd (alloc mem))) \<and> rc = 0 \<and> array_ok")
    case True
    from for_each_header_collects [OF run] True
    have c: "hc_count hc' = length hs" "hc_names hc' = map (\<lambda>h. fst h @ [0]) hs"
      "hc_values hc' = map (\<lambda>h. snd h @ [0]) hs"
      by simp_all
    note fill_result_collected [OF c, of "jvm_decode w"]
    with assms True run show ?thesis
      by (simp add: QuicheNative_quiche_h3_event_headers_def Let_def
            quiche_h3_event_for_each_header_def NewObjectArray_def)
  next
    case False
    with assms run show ?thesis
      by (auto simp: QuicheNative_quiche_h3_event_headers_def Let_def
            quiche_h3_event_for_each_header_def NewObjectArray_def)
  qed
qed

lemma event_headers_cached_ok:
  assumes "current_event w t = Some (H3_HEADERS hs)" and "False \<notin> set mem" and "array_ok"
  shows "QuicheNative_quiche_h3_event_headers t mem array_ok h w
           = Inr (Some (map (\<lambda>s. Some (NewStringUTF (jvm_decode w) (s @ [0]))) (flat_headers hs)))"
proof -
  let ?hc0 = "\<lparr>hc_count = 0, hc_capacity = 32, hc_names = [], hc_values = []\<rparr>"
  let ?heap0 = "\<lparr>answers = snd (alloc (snd (alloc mem))), names_released = False,
                  values_released = False\<rparr>"
  note a1 = alloc_never_fails [OF assms(2)]
  note a2 = alloc_never_fails [OF a1 [THEN conjunct2]]
  have a3: "False \<notin> set (answers ?heap0)"
    using a2 by simp
  obtain rc hc' mem' where
    run: "for_each_header header_cb hs (?hc0, ?heap0) = (rc, (hc', mem'))"
    by (metis prod.exhaust)
  with for_each_header_never_fails [OF a3, of hs ?hc0]
  have rc: "rc = 0" by simp
  from for_each_header_collects [OF run rc]
  have c: "hc_count hc' = length hs" "hc_names hc' = map (\<lambda>h. fst h @ [0]) hs"
    "hc_values hc' = map (\<lambda>h. snd h @ [0]) hs"
    by simp_all
  note fill_result_collected [OF c, of "jvm_decode w"]
  with assms a1 a2 run rc show ?thesis
    by (simp add: QuicheNative_quiche_h3_event_headers_def Let_def
          quiche_h3_event_for_each_header_def NewObjectArray_def)
qed

lemma event_headers_cached_exact:
  assumes "current_event w t = Some (H3_HEADERS hs)" and "False \<notin> set mem" and "array_ok"
    and "list_all modified_utf8 (flat_headers hs)"
  shows "QuicheNative_quiche_h3_event_headers t mem array_ok h w
           = Inr (Some (map Some (flat_headers hs)))"
  using event_headers_cached_ok [OF assms(1-3), of h]
  by (simp add: NewStringUTF_all_modified_utf8 [OF assms(4)])

lemma event_headers_empty_slot:
  "current_event w t = None \<Longrightarrow>
   QuicheNative_quiche_h3_event_headers t mem array_ok h w = Inr None"
  by (simp add: QuicheNative_quiche_h3_event_headers_def)

text \<open>
  A Headers event of thirty-three headers finds the arrays full at its last header. When
  only one of the two \<^verbatim>\<open>realloc\<close>s fails, the cleanup goes through a released array;
  when both fail, the method returns \<^verbatim>\<open>NULL\<close>.
\<close>

lemma event_headers_after_failed_realloc:
  "(let w = example_world\<lparr>current_event :=
              (\<lambda>_. None)(1 := Some (H3_HEADERS (replicate 33 ([0x78], [0x79]))))\<rparr>
    in QuicheNative_quiche_h3_event_headers 1 (replicate 66 True @ [True, False]) True 0x2000 w
         = Inl Use_after_free \<and>
       QuicheNative_quiche_h3_event_headers 1 (replicate 66 True @ [False, True]) True 0x2000 w
         = Inl Use_after_free \<and>
       QuicheNative_quiche_h3_event_headers 1 (replicate 66 True @ [False, False]) True 0x2000 w
         = Inr None)"
  by code_simp

lemma h3_conn_poll_returns:
  assumes "objects w h3 = Some HttpSession" and "objects w conn = Some Connection"
    and "fst r <s 0 \<or> snd r \<noteq> None"
  shows "\<exists>x. QuicheNative_quiche_h3_conn_poll t r array_ok h3 conn w =
           Inr (x, w\<lparr>calls := calls w @
                         (case current_event w t of None \<Rightarrow> []
                          | Some old \<Rightarrow> [Quiche_h3_event_free old]) @
                         [Quiche_h3_conn_poll h3 conn],
                      current_event :=
                        (current_event w)(t := if fst r <s 0 then None else snd r)\<rparr>) \<and>
             (fst r <s 0 \<longrightarrow> x = None)"
proof (cases "fst r <s 0")
  case True
  then show ?thesis
    by (simp add: h3_conn_poll_live [OF assms(1,2)] Let_def)
next
  case False
  with assms(3) obtain e where "snd r = Some e" by auto
  with False show ?thesis
    by (simp add: h3_conn_poll_live [OF assms(1,2)] Let_def)
qed

subsection \<open>Polling and reading headers\<close>

text \<open>
  C4, as the code has it. The slot that a poll releases and fills, and that
  \<^verbatim>\<open>quiche_h3_event_headers\<close> reads, is the slot of the calling thread. For calls made
  on one thread \<open>t\<close>, on a live session and connection: a poll returns whenever quiche's
  answer is negative or comes with an event, and what it has done by then is, in this
  order, release the event the slot of \<open>t\<close> held, if any, and ask quiche for the next
  event; the slots of the other threads are as they were. After a first poll (whatever
  quiche answered) and a second poll that returned a Headers event, with no header read
  in between, the second poll has released the first poll's event, and
  \<^verbatim>\<open>quiche_h3_event_headers\<close> on \<open>t\<close>, whatever handle it is given, returns the flat
  array of the second event's header list when no allocation fails: each name and value
  is the string \<^verbatim>\<open>NewStringUTF\<close> builds of it, which is the name or value itself when it
  is modified UTF-8. Whatever the allocator answers, the method returns that array or
  \<^verbatim>\<open>NULL\<close>, or its cleanup goes through a released array; it never returns anything of
  the first event. After a second poll for which quiche had no event, and whenever the
  slot of \<open>t\<close> is empty, \<^verbatim>\<open>quiche_h3_event_headers\<close> on \<open>t\<close> returns \<^verbatim>\<open>NULL\<close>, the
  method's only failure result.
\<close>

theorem poll_releases_then_caches:
  assumes "objects w h3 = Some HttpSession" and "objects w conn = Some Connection"
    and "fst r1 <s 0 \<or> snd r1 \<noteq> None"
  shows "\<exists>x1 w1.
           QuicheNative_quiche_h3_conn_poll t r1 ok1 h3 conn w = Inr (x1, w1) \<and>
           calls w1 = calls w @
                      (case current_event w t of None \<Rightarrow> []
                       | Some old \<Rightarrow> [Quiche_h3_event_free old]) @
                      [Quiche_h3_conn_poll h3 conn] \<and>
           current_event w1 = (current_event w)(t := if fst r1 <s 0 then None else snd r1) \<and>
           (\<not> stream_id <s 0 \<longrightarrow>
              (\<exists>x2 w2.
                 QuicheNative_quiche_h3_conn_poll t (stream_id, Some (H3_HEADERS hs)) ok2 h3 conn w1
                   = Inr (x2, w2) \<and>
                 calls w2 = calls w1 @
                            (case current_event w1 t of None \<Rightarrow> []
                             | Some old \<Rightarrow> [Quiche_h3_event_free old]) @
                            [Quiche_h3_conn_poll h3 conn] \<and>
                 current_event w2 = (current_event w1)(t := Some (H3_HEADERS hs)) \<and>
                 (QuicheNative_quiche_h3_event_headers t mem array_ok h w2 = Inr None \<or>
                  QuicheNative_quiche_h3_event_headers t mem array_ok h w2 = Inl Use_after_free \<or>
                  QuicheNative_quiche_h3_event_headers t mem array_ok h w2
                    = Inr (Some (map (\<lambda>s. Some (NewStringUTF (jvm_decode w) (s @ [0])))
                                   (flat_headers hs)))) \<and>
                 (False \<notin> set mem \<and> array_ok \<longrightarrow>
                    QuicheNative_quiche_h3_event_headers t mem array_ok h w2
                      = Inr (Some (map (\<lambda>s. Some (NewStringUTF (jvm_decode w) (s @ [0])))
                                     (flat_headers hs)))) \<and>
                 (False \<notin> set mem \<and> array_ok \<and> list_all modified_utf8 (flat_headers hs) \<longrightarrow>
                    QuicheNative_quiche_h3_event_headers t mem array_ok h w2
                      = Inr (Some (map Some (flat_headers hs)))))) \<and>
           (code <s 0 \<longrightarrow>
              (\<exists>w2.
                 QuicheNative_quiche_h3_conn_poll t (code, ev) ok2 h3 conn w1 = Inr (None, w2) \<and>
                 QuicheNative_quiche_h3_event_headers t mem array_ok h w2 = Inr None)) \<and>
           (current_event w1 t = None \<longrightarrow>
              QuicheNative_quiche_h3_event_headers t mem array_ok h w1 = Inr None)"
proof -
  let ?rel = "\<lambda>w. case current_event w t of None \<Rightarrow> [] | Some old \<Rightarrow> [Quiche_h3_event_free old]"
  let ?w1 = "w\<lparr>calls := calls w @ ?rel w @ [Quiche_h3_conn_poll h3 conn],
               current_event := (current_event w)(t := if fst r1 <s 0 then None else snd r1)\<rparr>"
  let ?list = "map (\<lambda>s. Some (NewStringUTF (jvm_decode w) (s @ [0]))) (flat_headers hs)"
  from h3_conn_poll_returns [OF assms, of t ok1]
  obtain x1 where p1: "QuicheNative_quiche_h3_conn_poll t r1 ok1 h3 conn w = Inr (x1, ?w1)"
    by blast
  have live1: "objects ?w1 h3 = Some HttpSession" "objects ?w1 conn = Some Connection"
    using assms(1,2) by simp_all
  have second: "\<exists>x2 w2.
         QuicheNative_quiche_h3_conn_poll t (stream_id, Some (H3_HEADERS hs)) ok2 h3 conn ?w1
           = Inr (x2, w2) \<and>
         calls w2 = calls ?w1 @ ?rel ?w1 @ [Quiche_h3_conn_poll h3 conn] \<and>
         current_event w2 = (current_event ?w1)(t := Some (H3_HEADERS hs)) \<and>
         (QuicheNative_quiche_h3_event_headers t mem array_ok h w2 = Inr None \<or>
          QuicheNative_quiche_h3_event_headers t mem array_ok h w2 = Inl Use_after_free \<or>
          QuicheNative_quiche_h3_event_headers t mem array_ok h w2 = Inr (Some ?list)) \<and>
         (False \<notin> set mem \<and> array_ok \<longrightarrow>
            QuicheNative_quiche_h3_event_headers t mem array_ok h w2 = Inr (Some ?list)) \<and>
         (False \<notin> set mem \<and> array_ok \<and> list_all modified_utf8 (flat_headers hs) \<longrightarrow>
            QuicheNative_quiche_h3_event_headers t mem array_ok h w2
              = Inr (Some (map Some (flat_headers hs))))"
    if nonneg: "\<not> stream_id <s 0"
  proof -
    let ?r2 = "(stream_id, Some (H3_HEADERS hs))"
    let ?w2 = "?w1\<lparr>calls := calls ?w1 @ ?rel ?w1 @ [Quiche_h3_conn_poll h3 conn],
                    current_event := (current_event ?w1)(t := Some (H3_HEADERS hs))\<rparr>"
    have "fst ?r2 <s 0 \<or> snd ?r2 \<noteq> None" by simp
    from h3_conn_poll_returns [OF live1 this, of t ok2] nonneg
    obtain x2 where p2: "QuicheNative_quiche_h3_conn_poll t ?r2 ok2 h3 conn ?w1 = Inr (x2, ?w2)"
      by auto
    have slot: "current_event ?w2 t = Some (H3_HEADERS hs)" by simp
    have dec: "jvm_decode ?w2 = jvm_decode w" by simp
    have c2: "calls ?w2 = calls ?w1 @ ?rel ?w1 @ [Quiche_h3_conn_poll h3 conn]"
      and s2: "current_event ?w2 = (current_event ?w1)(t := Some (H3_HEADERS hs))"
      by simp_all
    note any = event_headers_cached [OF slot, of mem array_ok h, unfolded dec]
    have ok: "QuicheNative_quiche_h3_event_headers t mem array_ok h ?w2 = Inr (Some ?list)"
      if "False \<notin> set mem \<and> array_ok"
      using event_headers_cached_ok [OF slot, of mem array_ok h, unfolded dec] that by blast
    have exact: "QuicheNative_quiche_h3_event_headers t mem array_ok h ?w2
                   = Inr (Some (map Some (flat_headers hs)))"
      if "False \<notin> set mem \<and> array_ok \<and> list_all modified_utf8 (flat_headers hs)"
      using event_headers_cached_exact [OF slot, of mem array_ok h] that by blast
    from p2 c2 s2 any ok exact
    show ?thesis by blast
  qed
  have none: "\<exists>w2.
         QuicheNative_quiche_h3_conn_poll t (code, ev) ok2 h3 conn ?w1 = Inr (None, w2) \<and>
         QuicheNative_quiche_h3_event_headers t mem array_ok h w2 = Inr None"
    if neg: "code <s 0"
  proof -
    let ?w2 = "?w1\<lparr>calls := calls ?w1 @ ?rel ?w1 @ [Quiche_h3_conn_poll h3 conn],
                    current_event := (current_event ?w1)(t := None)\<rparr>"
    have "fst (code, ev) <s 0 \<or> snd (code, ev) \<noteq> None" using neg by simp
    from h3_conn_poll_returns [OF live1 this, of t ok2] neg
    have p2: "QuicheNative_quiche_h3_conn_poll t (code, ev) ok2 h3 conn ?w1 = Inr (None, ?w2)"
      by auto
    have "current_event ?w2 t = None" by simp
    from p2 event_headers_empty_slot [OF this, of mem array_ok h]
    show ?thesis by blast
  qed
  have empty: "QuicheNative_quiche_h3_event_headers t mem array_ok h ?w1 = Inr None"
    if "current_event ?w1 t = None"
    using that by (rule event_headers_empty_slot)
  have c1: "calls ?w1 = calls w @ ?rel w @ [Quiche_h3_conn_poll h3 conn]"
    and s1: "current_event ?w1 = (current_event w)(t := if fst r1 <s 0 then None else snd r1)"
    by simp_all
  have "QuicheNative_quiche_h3_conn_poll t r1 ok1 h3 conn w = Inr (x1, ?w1) \<and>
        calls ?w1 = calls w @ ?rel w @ [Quiche_h3_conn_poll h3 conn] \<and>
        current_event ?w1 = (current_event w)(t := if fst r1 <s 0 then None else snd r1) \<and>
        (\<not> stream_id <s 0 \<longrightarrow>
           (\<exists>x2 w2.
              QuicheNative_quiche_h3_conn_poll t (stream_id, Some (H3_HEADERS hs)) ok2 h3 conn ?w1
                = Inr (x2, w2) \<and>
              calls w2 = calls ?w1 @ ?rel ?w1 @ [Quiche_h3_conn_poll h3 conn] \<and>
              current_event w2 = (current_event ?w1)(t := Some (H3_HEADERS hs)) \<and>
              (QuicheNative_quiche_h3_event_headers t mem array_ok h w2 = Inr None \<or>
               QuicheNative_quiche_h3_event_headers t mem array_ok h w2 = Inl Use_after_free \<or>
               QuicheNative_quiche_h3_event_headers t mem array_ok h w2 = Inr (Some ?list)) \<and>
              (False \<notin> set mem \<and> array_ok \<longrightarrow>
                 QuicheNative_quiche_h3_event_headers t mem array_ok h w2 = Inr (Some ?list)) \<and>
              (False \<notin> set mem \<and> array_ok \<and> list_all modified_utf8 (flat_headers hs) \<longrightarrow>
                 QuicheNative_quiche_h3_event_headers t mem array_ok h w2
                   = Inr (Some (map Some (flat_headers hs)))))) \<and>
        (code <s 0 \<longrightarrow>
           (\<exists>w2.
              QuicheNative_quiche_h3_conn_poll t (code, ev) ok2 h3 conn ?w1 = Inr (None, w2) \<and>
              QuicheNative_quiche_h3_event_headers t mem array_ok h w2 = Inr None)) \<and>
        (current_event ?w1 t = None \<longrightarrow>
           QuicheNative_quiche_h3_event_headers t mem array_ok h ?w1 = Inr None)"
  proof (intro conjI impI)
    show "QuicheNative_quiche_h3_conn_poll t r1 ok1 h3 conn w = Inr (x1, ?w1)" by (rule p1)
    show "calls ?w1 = calls w @ ?rel w @ [Quiche_h3_conn_poll h3 conn]" by (rule c1)
    show "current_event ?w1 = (current_event w)(t := if fst r1 <s 0 then None else snd r1)"
      by (rule s1)
  next
    assume "\<not> stream_id <s 0"
    then show "\<exists>x2 w2.
              QuicheNative_quiche_h3_conn_poll t (stream_id, Some (H3_HEADERS hs)) ok2 h3 conn ?w1
                = Inr (x2, w2) \<and>
              calls w2 = calls ?w1 @ ?rel ?w1 @ [Quiche_h3_conn_poll h3 conn] \<and>
              current_event w2 = (current_event ?w1)(t := Some (H3_HEADERS hs)) \<and>
              (QuicheNative_quiche_h3_event_headers t mem array_ok h w2 = Inr None \<or>
               QuicheNative_quiche_h3_event_headers t mem array_ok h w2 = Inl Use_after_free \<or>
               QuicheNative_quiche_h3_event_headers t mem array_ok h w2 = Inr (Some ?list)) \<and>
              (False \<notin> set mem \<and> array_ok \<longrightarrow>
                 QuicheNative_quiche_h3_event_headers t mem array_ok h w2 = Inr (Some ?list)) \<and>
              (False \<notin> set mem \<and> array_ok \<and> list_all modified_utf8 (flat_headers hs) \<longrightarrow>
                 QuicheNative_quiche_h3_event_headers t mem array_ok h w2
                   = Inr (Some (map Some (flat_headers hs))))"
      by (rule second)
  next
    assume "code <s 0"
    then show "\<exists>w2.
              QuicheNative_quiche_h3_conn_poll t (code, ev) ok2 h3 conn ?w1 = Inr (None, w2) \<and>
              QuicheNative_quiche_h3_event_headers t mem array_ok h w2 = Inr None"
      by (rule none)
  next
    assume "current_event ?w1 t = None"
    then show "QuicheNative_quiche_h3_event_headers t mem array_ok h ?w1 = Inr None"
      by (rule empty)
  qed
  then show ?thesis
    by (intro exI)
qed

theorem poll_releases_then_caches_witness:
  "\<exists>x1 w1.
     QuicheNative_quiche_h3_conn_poll 1 (0, Some (H3_HEADERS [([0x61], [0x31])])) True
       0x2000 0x1000 example_world = Inr (x1, w1) \<and>
     calls w1 = [Quiche_h3_conn_poll 0x2000 0x1000] \<and>
     current_event w1 2 = None \<and>
     (\<exists>x2 w2.
        QuicheNative_quiche_h3_conn_poll 1 (4, Some (H3_HEADERS [([0x62], [0x32])])) True
          0x2000 0x1000 w1 = Inr (x2, w2) \<and>
        calls w2 = [Quiche_h3_conn_poll 0x2000 0x1000,
                    Quiche_h3_event_free (H3_HEADERS [([0x61], [0x31])]),
                    Quiche_h3_conn_poll 0x2000 0x1000] \<and>
        QuicheNative_quiche_h3_event_headers 1 [] True 0x2000 w2
          = Inr (Some [Some [0x62], Some [0x32]])) \<and>
     (\<exists>w2.
        QuicheNative_quiche_h3_conn_poll 1 (- 1, None) True 0x2000 0x1000 w1 = Inr (None, w2) \<and>
        QuicheNative_quiche_h3_event_headers 1 [] True 0x2000 w2 = Inr None)"
proof -
  have live: "objects example_world 0x2000 = Some HttpSession"
    "objects example_world 0x1000 = Some Connection"
    and e: "current_event example_world = (\<lambda>_. None)" "calls example_world = []"
    by (simp_all add: example_world_def)
  have answer: "fst (0 :: jlong, Some (H3_HEADERS [([0x61], [0x31])])) <s 0 \<or>
                snd (0 :: jlong, Some (H3_HEADERS [([0x61 :: byte], [0x31 :: byte])])) \<noteq> None"
    by simp
  have flat: "map Some (flat_headers [([0x62], [0x32])]) = [Some [0x62], Some [0x32 :: byte]]"
    and wf: "list_all modified_utf8 (flat_headers [([0x62], [0x32])])"
    by (simp_all add: flat_headers_def)
  from poll_releases_then_caches [OF live answer, where t = 1 and ?ok1.0 = True
         and stream_id = 4 and hs = "[([0x62], [0x32])]" and ?ok2.0 = True and mem = "[]"
         and array_ok = True and code = "- 1" and ev = None and h = "0x2000"]
  obtain x1 w1 where
    p1: "QuicheNative_quiche_h3_conn_poll 1 (0, Some (H3_HEADERS [([0x61], [0x31])])) True
           0x2000 0x1000 example_world = Inr (x1, w1)"
    and c1: "calls w1 = [Quiche_h3_conn_poll 0x2000 0x1000]"
    and s1: "current_event w1 = (\<lambda>_. None)(1 := Some (H3_HEADERS [([0x61], [0x31])]))"
    and second: "\<exists>x2 w2.
        QuicheNative_quiche_h3_conn_poll 1 (4, Some (H3_HEADERS [([0x62], [0x32])])) True
          0x2000 0x1000 w1 = Inr (x2, w2) \<and>
        calls w2 = calls w1 @
                   (case current_event w1 1 of None \<Rightarrow> []
                    | Some old \<Rightarrow> [Quiche_h3_event_free old]) @
                   [Quiche_h3_conn_poll 0x2000 0x1000] \<and>
        QuicheNative_quiche_h3_event_headers 1 [] True 0x2000 w2
          = Inr (Some [Some [0x62], Some [0x32]])"
    and none: "\<exists>w2.
        QuicheNative_quiche_h3_conn_poll 1 (- 1, None) True 0x2000 0x1000 w1 = Inr (None, w2) \<and>
        QuicheNative_quiche_h3_event_headers 1 [] True 0x2000 w2 = Inr None"
    by (auto simp: e sless_examples flat wf)
  from second have "\<exists>x2 w2.
        QuicheNative_quiche_h3_conn_poll 1 (4, Some (H3_HEADERS [([0x62], [0x32])])) True
          0x2000 0x1000 w1 = Inr (x2, w2) \<and>
        calls w2 = [Quiche_h3_conn_poll 0x2000 0x1000,
                    Quiche_h3_event_free (H3_HEADERS [([0x61], [0x31])]),
                    Quiche_h3_conn_poll 0x2000 0x1000] \<and>
        QuicheNative_quiche_h3_event_headers 1 [] True 0x2000 w2
          = Inr (Some [Some [0x62], Some [0x32]])"
    using s1 by (simp add: c1)
  moreover from s1 have "current_event w1 2 = None"
    by simp
  ultimately show ?thesis
    using p1 c1 none by blast
qed

text \<open>
  Not every sequence of operations on a session stays on one thread. The session is polled
  on thread 1 and quiche gives a Headers event; it is polled again on thread 2 and quiche
  gives another Headers event. The second poll has released nothing, and
  \<^verbatim>\<open>quiche_h3_event_headers\<close> on thread 1 returns the headers of the first event.
\<close>

theorem poll_other_thread_counterexample:
  "(let e1 = H3_HEADERS [([0x61], [0x31])];
        e2 = H3_HEADERS [([0x62], [0x32])];
        w1 = example_world\<lparr>calls := [Quiche_h3_conn_poll 0x2000 0x1000],
                            current_event := (\<lambda>_. None)(1 := Some e1)\<rparr>;
        w2 = example_world\<lparr>calls := [Quiche_h3_conn_poll 0x2000 0x1000,
                                       Quiche_h3_conn_poll 0x2000 0x1000],
                            current_event := (\<lambda>_. None)(1 := Some e1, 2 := Some e2)\<rparr>
    in QuicheNative_quiche_h3_conn_poll 1 (0, Some e1) True 0x2000 0x1000 example_world =
         Inr (Some [0, 0], w1) \<and>
       QuicheNative_quiche_h3_conn_poll 2 (4, Some e2) True 0x2000 0x1000 w1 =
         Inr (Some [4, 0], w2) \<and>
       QuicheNative_quiche_h3_event_headers 1 [] True 0x2000 w2 =
         Inr (Some [Some [0x61], Some [0x31]]))"
  by (simp add: Let_def example_world_def
        QuicheNative_quiche_h3_conn_poll_def quiche_h3_event_free_def engine_def
        QuicheNative_quiche_h3_event_headers_def quiche_h3_event_for_each_header_def
        header_cb_def alloc_def NewObjectArray_def fill_result_def NewStringUTF_def
        fun_upd_idem sless_examples replicate_2)

subsection \<open>The header list codec\<close>

lemma flat_headers_length: "length (flat_headers hs) = 2 * length hs"
  by (induction hs) (simp_all add: flat_headers_def)

lemma flat_headers_nth:
  "i < length hs \<Longrightarrow>
   flat_headers hs ! (i * 2) = fst (hs ! i) \<and> flat_headers hs ! (i * 2 + 1) = snd (hs ! i)"
proof (induction hs arbitrary: i)
  case Nil
  then show ?case by simp
next
  case (Cons h hs)
  show ?case
  proof (cases i)
    case 0
    then show ?thesis by (simp add: flat_headers_def)
  next
    case (Suc j)
    with Cons.prems have "j < length hs" by simp
    from Cons.IH [OF this] Suc show ?thesis
      by (simp add: flat_headers_def)
  qed
qed

lemma flat_headers_all:
  "list_all P (flat_headers hs) = list_all (\<lambda>h. P (fst h) \<and> P (snd h)) hs"
  by (induction hs) (simp_all add: flat_headers_def)

lemma take_strlen: "take (strlen (GetStringUTFChars s)) (GetStringUTFChars s) = c_string s"
proof -
  have "take (strlen (s @ [0])) (s @ [0]) = takeWhile (\<lambda>b. b \<noteq> 0) (s @ [0])"
    unfolding strlen_def by (rule takeWhile_eq_take [symmetric])
  then show ?thesis
    by (simp add: GetStringUTFChars_def c_string_terminated)
qed

lemma h3_headers_of_flat:
  "map header_bytes (h3_headers_of (flat_headers hs))
     = map (\<lambda>h. (c_string (fst h), c_string (snd h))) hs"
proof (rule nth_equalityI)
  show "length (map header_bytes (h3_headers_of (flat_headers hs)))
          = length (map (\<lambda>h. (c_string (fst h), c_string (snd h))) hs)"
    by (simp add: h3_headers_of_def flat_headers_length)
next
  fix i
  assume "i < length (map header_bytes (h3_headers_of (flat_headers hs)))"
  then have i: "i < length hs"
    by (simp add: h3_headers_of_def flat_headers_length)
  from flat_headers_nth [OF i] i
  show "map header_bytes (h3_headers_of (flat_headers hs)) ! i
          = map (\<lambda>h. (c_string (fst h), c_string (snd h))) hs ! i"
    by (simp add: h3_headers_of_def flat_headers_length header_bytes_def take_strlen Let_def)
qed

text \<open>The header array built from Java strings holds their bytes.\<close>

lemma h3_headers_of_strings:
  assumes "list_all modified_utf8 (flat_headers hs)"
  shows "map header_bytes (h3_headers_of (flat_headers hs)) = hs"
proof -
  from assms have "map (\<lambda>h. (c_string (fst h), c_string (snd h))) hs = hs"
    by (induction hs) (simp_all add: flat_headers_def c_string_id modified_utf8_no_zero)
  then show ?thesis
    by (simp add: h3_headers_of_flat)
qed

text \<open>
  C6, as the code has it. The flat \<^verbatim>\<open>String[]\<close> of an outgoing header list \<open>hs\<close> holds
  Java strings, whose bytes are modified UTF-8. On a live session and connection and when
  the header array can be allocated, \<^verbatim>\<open>quiche_h3_send_response\<close> and
  \<^verbatim>\<open>quiche_h3_send_request\<close> hand quiche one \<^verbatim>\<open>quiche_h3_header\<close> per pair, in the
  list's order and with duplicates, whose name and value are the bytes of the pair's
  strings. \<^verbatim>\<open>quiche_h3_event_headers\<close>, on a cached Headers event \<open>incoming\<close> with any
  bytes and when no allocation fails, returns the flat array of the event's names and
  values, in the event's order and with duplicates, each the string \<^verbatim>\<open>NewStringUTF\<close>
  builds of it. That string is the name or value itself when it is modified UTF-8, and a
  name or value that holds a zero byte is read up to its first zero byte only. When every
  name and value of the event is modified UTF-8, the array is the event's header list
  itself. So reading back an event that carries what was sent returns the original flat
  array.
\<close>

theorem header_codec_preserves:
  assumes "objects w h3 = Some HttpSession" and "objects w conn = Some Connection"
  shows "QuicheNative_quiche_h3_send_response rc True h3 conn stream_id (flat_headers hs) fin w =
           Inr (rc, w\<lparr>calls := calls w @
                  [Quiche_h3_send_response h3 conn stream_id
                     (h3_headers_of (flat_headers hs)) fin]\<rparr>) \<and>
         QuicheNative_quiche_h3_send_request new_id True h3 conn (flat_headers hs) fin w =
           Inr (new_id, w\<lparr>calls := calls w @
                  [Quiche_h3_send_request h3 conn (h3_headers_of (flat_headers hs)) fin]\<rparr>) \<and>
         (current_event w' t = Some (H3_HEADERS incoming) \<and> False \<notin> set mem \<longrightarrow>
            QuicheNative_quiche_h3_event_headers t mem True h w'
              = Inr (Some (map (\<lambda>s. Some (NewStringUTF (jvm_decode w') (s @ [0])))
                             (flat_headers incoming)))) \<and>
         (modified_utf8 s \<longrightarrow> NewStringUTF dec (s @ [0]) = s) \<and>
         (0 \<notin> set s \<longrightarrow>
            NewStringUTF dec ((s @ 0 # rest) @ [0]) = NewStringUTF dec (s @ [0])) \<and>
         (current_event w' t = Some (H3_HEADERS incoming) \<and> False \<notin> set mem \<and>
          list_all modified_utf8 (flat_headers incoming) \<longrightarrow>
            QuicheNative_quiche_h3_event_headers t mem True h w'
              = Inr (Some (map Some (flat_headers incoming)))) \<and>
         (list_all modified_utf8 (flat_headers hs) \<longrightarrow>
            map header_bytes (h3_headers_of (flat_headers hs)) = hs \<and>
            (current_event w' t
               = Some (H3_HEADERS (map header_bytes (h3_headers_of (flat_headers hs)))) \<and>
             False \<notin> set mem \<longrightarrow>
               QuicheNative_quiche_h3_event_headers t mem True h w'
                 = Inr (Some (map Some (flat_headers hs)))))"
proof (intro conjI impI)
  show "QuicheNative_quiche_h3_send_response rc True h3 conn stream_id (flat_headers hs) fin w =
           Inr (rc, w\<lparr>calls := calls w @
                  [Quiche_h3_send_response h3 conn stream_id
                     (h3_headers_of (flat_headers hs)) fin]\<rparr>)"
    by (simp add: QuicheNative_quiche_h3_send_response_def engine_live2 [OF assms])
  show "QuicheNative_quiche_h3_send_request new_id True h3 conn (flat_headers hs) fin w =
           Inr (new_id, w\<lparr>calls := calls w @
                  [Quiche_h3_send_request h3 conn (h3_headers_of (flat_headers hs)) fin]\<rparr>)"
    by (simp add: QuicheNative_quiche_h3_send_request_def engine_live2 [OF assms])
next
  assume "current_event w' t = Some (H3_HEADERS incoming) \<and> False \<notin> set mem"
  then show "QuicheNative_quiche_h3_event_headers t mem True h w'
              = Inr (Some (map (\<lambda>s. Some (NewStringUTF (jvm_decode w') (s @ [0])))
                             (flat_headers incoming)))"
    by (simp add: event_headers_cached_ok)
next
  assume "modified_utf8 s"
  then show "NewStringUTF dec (s @ [0]) = s"
    by (rule NewStringUTF_modified_utf8)
next
  assume "0 \<notin> set s"
  then show "NewStringUTF dec ((s @ 0 # rest) @ [0]) = NewStringUTF dec (s @ [0])"
    by (rule NewStringUTF_first_zero)
next
  assume "current_event w' t = Some (H3_HEADERS incoming) \<and> False \<notin> set mem \<and>
          list_all modified_utf8 (flat_headers incoming)"
  then show "QuicheNative_quiche_h3_event_headers t mem True h w'
              = Inr (Some (map Some (flat_headers incoming)))"
    by (simp add: event_headers_cached_exact)
next
  assume wf: "list_all modified_utf8 (flat_headers hs)"
  then show sent: "map header_bytes (h3_headers_of (flat_headers hs)) = hs"
    by (rule h3_headers_of_strings)
  assume "current_event w' t
               = Some (H3_HEADERS (map header_bytes (h3_headers_of (flat_headers hs)))) \<and>
          False \<notin> set mem"
  then have "current_event w' t = Some (H3_HEADERS hs)" and "False \<notin> set mem"
    by (simp_all add: sent)
  then show "QuicheNative_quiche_h3_event_headers t mem True h w'
               = Inr (Some (map Some (flat_headers hs)))"
    using wf by (simp add: event_headers_cached_exact)
qed

theorem header_codec_preserves_witness:
  "map header_bytes (h3_headers_of (flat_headers [])) = [] \<and>
   QuicheNative_quiche_h3_event_headers 1 [] True 0x2000
     (example_world\<lparr>current_event := (\<lambda>_. None)
        (1 := Some (H3_HEADERS (map header_bytes (h3_headers_of (flat_headers [])))))\<rparr>)
     = Inr (Some []) \<and>
   map header_bytes (h3_headers_of (flat_headers [([0x3A, 0x70], [0x2F])]))
     = [([0x3A, 0x70], [0x2F])] \<and>
   QuicheNative_quiche_h3_event_headers 1 [] True 0x2000
     (example_world\<lparr>current_event := (\<lambda>_. None)
        (1 := Some (H3_HEADERS (map header_bytes
                 (h3_headers_of (flat_headers [([0x3A, 0x70], [0x2F])])))))\<rparr>)
     = Inr (Some [Some [0x3A, 0x70], Some [0x2F]]) \<and>
   map header_bytes (h3_headers_of (flat_headers (replicate 50 ([0x78], [0x79]))))
     = replicate 50 ([0x78], [0x79]) \<and>
   QuicheNative_quiche_h3_event_headers 1 [] True 0x2000
     (example_world\<lparr>current_event := (\<lambda>_. None)
        (1 := Some (H3_HEADERS (map header_bytes
                 (h3_headers_of (flat_headers (replicate 50 ([0x78], [0x79])))))))\<rparr>)
     = Inr (Some (map Some (flat_headers (replicate 50 ([0x78], [0x79]))))) \<and>
   QuicheNative_quiche_h3_send_response 0 True 0x2000 0x1000 4
       (flat_headers (replicate 50 ([0x78], [0x79]))) False example_world
     = Inr (0, example_world\<lparr>calls :=
          [Quiche_h3_send_response 0x2000 0x1000 4
             (h3_headers_of (flat_headers (replicate 50 ([0x78], [0x79])))) False]\<rparr>) \<and>
   NewStringUTF (jvm_decode example_world) [0xC3, 0xA9, 0] = [0xC3, 0xA9] \<and>
   NewStringUTF (jvm_decode example_world) [0x62, 0, 0x63, 0]
     = NewStringUTF (jvm_decode example_world) [0x62, 0]"
proof -
  have live: "objects example_world 0x2000 = Some HttpSession"
    "objects example_world 0x1000 = Some Connection"
    and c: "calls example_world = []"
    by (simp_all add: example_world_def)
  have str: "NewStringUTF (jvm_decode example_world) [0xC3, 0xA9, 0] = [0xC3, 0xA9]"
    "NewStringUTF (jvm_decode example_world) [0x62, 0, 0x63, 0]
       = NewStringUTF (jvm_decode example_world) [0x62, 0]"
    using header_codec_preserves [OF live, where s = "[0xC3, 0xA9]"
            and dec = "jvm_decode example_world"]
          header_codec_preserves [OF live, where s = "[0x62]" and rest = "[0x63]"
            and dec = "jvm_decode example_world"]
    by simp_all
  have z: "list_all modified_utf8 (flat_headers [])"
    "list_all modified_utf8 (flat_headers [([0x3A, 0x70], [0x2F])])"
    "list_all modified_utf8 (flat_headers (replicate 50 ([0x78], [0x79])))"
    by (simp_all only: flat_headers_all) (simp_all add: list_all_iff)
  have f: "flat_headers [] = ([] :: byte list list)"
    "flat_headers [([0x3A, 0x70], [0x2F])] = [[0x3A, 0x70], [0x2F :: byte]]"
    by (simp_all add: flat_headers_def)
  let ?slot = "\<lambda>hs. example_world\<lparr>current_event := (\<lambda>_. None)
        (1 := Some (H3_HEADERS (map header_bytes (h3_headers_of (flat_headers hs)))))\<rparr>"
  have s: "current_event (?slot hs) 1
             = Some (H3_HEADERS (map header_bytes (h3_headers_of (flat_headers hs))))" for hs
    by simp
  have rt: "map header_bytes (h3_headers_of (flat_headers hs)) = hs \<and>
            QuicheNative_quiche_h3_event_headers 1 [] True 0x2000 (?slot hs)
              = Inr (Some (map Some (flat_headers hs)))"
    if "list_all modified_utf8 (flat_headers hs)" for hs
  proof -
    note last = header_codec_preserves [OF live, where mem = "[]" and t = 1 and h = "0x2000"
            and hs = hs and w' = "?slot hs",
            THEN conjunct2, THEN conjunct2, THEN conjunct2, THEN conjunct2, THEN conjunct2,
            THEN conjunct2, rule_format, OF that]
    have m: "False \<notin> set []" by simp
    from last [THEN conjunct1] last [THEN conjunct2, rule_format, OF conjI, OF s m]
    show ?thesis by (rule conjI)
  qed
  have send: "QuicheNative_quiche_h3_send_response 0 True 0x2000 0x1000 4
                (flat_headers hs) False example_world
              = Inr (0, example_world\<lparr>calls :=
                   [Quiche_h3_send_response 0x2000 0x1000 4
                      (h3_headers_of (flat_headers hs)) False]\<rparr>)" for hs
    using header_codec_preserves [OF live, where hs = hs and rc = 0 and stream_id = 4
            and fin = False, THEN conjunct1]
    by (simp only: c append_Nil)
  have fl: "map Some (flat_headers []) = ([] :: byte list option list)"
    "map Some (flat_headers [([0x3A, 0x70], [0x2F])]) = [Some [0x3A, 0x70], Some [0x2F :: byte]]"
    by (simp_all add: f)
  note n0 = rt [OF z(1), THEN conjunct1] rt [OF z(1), THEN conjunct2, unfolded fl]
  note n1 = rt [OF z(2), THEN conjunct1] rt [OF z(2), THEN conjunct2, unfolded fl]
  from rt [OF z(3)] send [of "replicate 50 ([0x78], [0x79])"]
  have n50: "map header_bytes (h3_headers_of (flat_headers (replicate 50 ([0x78], [0x79]))))
              = replicate 50 ([0x78], [0x79])"
    "QuicheNative_quiche_h3_event_headers 1 [] True 0x2000
       (?slot (replicate 50 ([0x78], [0x79])))
       = Inr (Some (map Some (flat_headers (replicate 50 ([0x78], [0x79])))))"
    "QuicheNative_quiche_h3_send_response 0 True 0x2000 0x1000 4
       (flat_headers (replicate 50 ([0x78], [0x79]))) False example_world
     = Inr (0, example_world\<lparr>calls :=
          [Quiche_h3_send_response 0x2000 0x1000 4
             (h3_headers_of (flat_headers (replicate 50 ([0x78], [0x79])))) False]\<rparr>)"
    by blast+
  from n0 n1 n50 str show ?thesis
    by (intro conjI)
qed

text \<open>
  A header value that holds a zero byte is not preserved: an incoming Headers event with
  the header \<open>a: b\0c\<close> is read back as \<open>a: b\<close>.
\<close>

theorem header_codec_counterexample:
  "QuicheNative_quiche_h3_event_headers 1 [] True 0x2000
     (example_world\<lparr>current_event :=
        (\<lambda>_. None)(1 := Some (H3_HEADERS [([0x61], [0x62, 0, 0x63])]))\<rparr>)
     = Inr (Some [Some [0x61], Some [0x62]]) \<and>
   flat_headers [([0x61], [0x62, 0, 0x63])] = [[0x61], [0x62, 0, 0x63]]"
proof -
  have "current_event (example_world\<lparr>current_event :=
          (\<lambda>_. None)(1 := Some (H3_HEADERS [([0x61], [0x62, 0, 0x63])]))\<rparr>) 1
        = Some (H3_HEADERS [([0x61], [0x62, 0, 0x63])])"
    by simp
  from event_headers_cached_ok [OF this, of "[]" True "0x2000"] show ?thesis
    by (simp add: flat_headers_def NewStringUTF_terminated c_string_def)
qed

subsection \<open>ALPN selection\<close>

lemma length_byte:
  "n \<le> 255 \<Longrightarrow> unat (of_nat n :: byte) = n"
  by (simp add: unat_of_nat)

lemma alpn_list_wire:
  "alpn_protocols ps \<Longrightarrow> alpn_list (alpn_wire ps) = Some ps"
proof (induction ps)
  case Nil
  then show ?case by (simp add: alpn_wire_def)
next
  case (Cons p ps)
  then have p: "p \<noteq> []" "length p \<le> 255" and ps: "alpn_protocols ps"
    by (simp_all add: alpn_protocols_def)
  have u: "unat (of_nat (length p) :: byte) = length p"
    using p(2) by (rule length_byte)
  have nz: "(of_nat (length p) :: byte) \<noteq> 0"
  proof
    assume "(of_nat (length p) :: byte) = 0"
    then have "unat (of_nat (length p) :: byte) = 0" by simp
    with u p(1) show False by simp
  qed
  have w: "alpn_wire (p # ps) = of_nat (length p) # (p @ alpn_wire ps)"
    by (simp add: alpn_wire_def)
  show ?case
    using Cons.IH [OF ps] by (simp add: w u nz)
qed

lemma SSL_select_next_proto_wire:
  assumes "alpn_protocols table" and "alpn_protocols advertised" and "advertised \<noteq> []"
  shows "SSL_select_next_proto (alpn_wire table) (alpn_wire advertised) =
           (case find (\<lambda>p. p \<in> set advertised) table of
              Some p \<Rightarrow> (OPENSSL_NPN_NEGOTIATED, p)
            | None \<Rightarrow> (OPENSSL_NPN_NO_OVERLAP, hd advertised))"
proof -
  from assms(3) obtain a rest where adv: "advertised = a # rest"
    by (cases advertised) simp_all
  show ?thesis
    using alpn_list_wire [OF assms(1)] alpn_list_wire [OF assms(2)]
    by (simp add: SSL_select_next_proto_def adv split: option.splits)
qed

lemma set_alpn_protos_stores:
  "QuicheNative_ssl_ctx_set_alpn_protos ret new_index protos st = (r, st') \<Longrightarrow>
   ex_data (snd st') (fst st') = Some \<lparr>protos_data = protos, protos_len = length protos\<rparr> \<and>
   select_cb_installed (snd st') \<and>
   r = (if ret = 0 then 0 else - 1) \<and>
   (ret = 0 \<longrightarrow> alpn_client_protos (snd st') = protos)"
  by (auto simp: QuicheNative_ssl_ctx_set_alpn_protos_def Let_def)

lemma find_none_sym:
  "(find (\<lambda>p. p \<in> set ys) xs = None) = (find (\<lambda>p. p \<in> set xs) ys = None)"
  by (auto simp: find_None_iff)

text \<open>
  C1, as the code has it. After \<^verbatim>\<open>ssl_ctx_set_alpn_protos\<close> stored the table, the
  callback, given the list the peer advertised, selects the first protocol of the local
  table, in the table's order, that the peer's list also contains, and returns
  \<^verbatim>\<open>SSL_TLSEXT_ERR_OK\<close>. If no protocol is in both lists it returns
  \<^verbatim>\<open>SSL_TLSEXT_ERR_NOACK\<close>, which is not the fatal alert; that is the case exactly
  when the selection the specification describes finds nothing either. Both lists are
  well-formed wire-format lists, and the peer's is not empty.
\<close>

theorem alpn_select_first_of_table:
  assumes "alpn_protocols table" and "alpn_protocols advertised" and "advertised \<noteq> []"
    and "QuicheNative_ssl_ctx_set_alpn_protos ret new_index (alpn_wire table) st = (r, st')"
  shows "(case find (\<lambda>p. p \<in> set advertised) table of
            Some p \<Rightarrow> alpn_select_cb st' (alpn_wire advertised) = (SSL_TLSEXT_ERR_OK, Some p)
          | None \<Rightarrow> fst (alpn_select_cb st' (alpn_wire advertised)) = SSL_TLSEXT_ERR_NOACK) \<and>
         SSL_TLSEXT_ERR_NOACK \<noteq> SSL_TLSEXT_ERR_ALERT_FATAL \<and>
         ((fst (alpn_select_cb st' (alpn_wire advertised)) = SSL_TLSEXT_ERR_NOACK)
            = (spec_alpn_select advertised table = None))"
proof -
  note stored = set_alpn_protos_stores [OF assms(4), THEN conjunct1]
  note sel = SSL_select_next_proto_wire [OF assms(1-3)]
  have cb: "alpn_select_cb st' (alpn_wire advertised) =
              (case find (\<lambda>p. p \<in> set advertised) table of
                 Some p \<Rightarrow> (SSL_TLSEXT_ERR_OK, Some p)
               | None \<Rightarrow> (SSL_TLSEXT_ERR_NOACK, Some (hd advertised)))"
    by (simp add: alpn_select_cb_def Let_def stored sel OPENSSL_NPN_NEGOTIATED_def
          OPENSSL_NPN_NO_OVERLAP_def split: option.splits)
  have "(find (\<lambda>p. p \<in> set advertised) table = None) = (spec_alpn_select advertised table = None)"
    unfolding spec_alpn_select_def by (rule find_none_sym)
  then show ?thesis
    by (cases "find (\<lambda>p. p \<in> set advertised) table")
       (auto simp: cb SSL_TLSEXT_ERR_OK_def SSL_TLSEXT_ERR_NOACK_def
          SSL_TLSEXT_ERR_ALERT_FATAL_def)
qed


theorem alpn_select_first_of_table_witness:
  "alpn_select_cb
     (snd (QuicheNative_ssl_ctx_set_alpn_protos 0 0 (alpn_wire [[0x68, 0x33], [0x68, 0x32]])
             (- 1, \<lparr>alpn_client_protos = [], ex_data = (\<lambda>_. None),
                    select_cb_installed = False\<rparr>)))
     (alpn_wire [[0x68, 0x32]])
     = (SSL_TLSEXT_ERR_OK, Some [0x68, 0x32]) \<and>
   fst (alpn_select_cb
     (snd (QuicheNative_ssl_ctx_set_alpn_protos 0 0 (alpn_wire [[0x68, 0x33], [0x68, 0x32]])
             (- 1, \<lparr>alpn_client_protos = [], ex_data = (\<lambda>_. None),
                    select_cb_installed = False\<rparr>)))
     (alpn_wire [[0x73, 0x70, 0x64, 0x79]]))
     = SSL_TLSEXT_ERR_NOACK"
proof -
  let ?st = "(- 1 :: int, \<lparr>alpn_client_protos = [], ex_data = (\<lambda>_. None),
                             select_cb_installed = False\<rparr>)"
  let ?set = "QuicheNative_ssl_ctx_set_alpn_protos 0 0 (alpn_wire [[0x68, 0x33], [0x68, 0x32]]) ?st"
  have t: "alpn_protocols [[0x68, 0x33], [0x68, 0x32 :: byte]]"
    and a1: "alpn_protocols [[0x68, 0x32 :: byte]]" "[[0x68, 0x32 :: byte]] \<noteq> []"
    and a2: "alpn_protocols [[0x73, 0x70, 0x64, 0x79 :: byte]]"
      "[[0x73, 0x70, 0x64, 0x79 :: byte]] \<noteq> []"
    by (simp_all add: alpn_protocols_def)
  have s: "?set = (fst ?set, snd ?set)" by simp
  from alpn_select_first_of_table [OF t a1 s, THEN conjunct1]
       alpn_select_first_of_table [OF t a2 s, THEN conjunct1]
  show ?thesis by simp
qed

text \<open>
  The peer's order does not decide when the two lists share more than one protocol in
  different orders: with the table \<open>[h3, h2]\<close> and a peer that advertises \<open>[h2, h3]\<close> the callback
  selects \<open>h3\<close>, the table's first, while the first protocol of the peer's list that is in
  the table is \<open>h2\<close>.
\<close>

theorem alpn_select_counterexample:
  "alpn_select_cb
     (snd (QuicheNative_ssl_ctx_set_alpn_protos 0 0 (alpn_wire [[0x68, 0x33], [0x68, 0x32]])
             (- 1, \<lparr>alpn_client_protos = [], ex_data = (\<lambda>_. None),
                    select_cb_installed = False\<rparr>)))
     (alpn_wire [[0x68, 0x32], [0x68, 0x33]])
     = (SSL_TLSEXT_ERR_OK, Some [0x68, 0x33]) \<and>
   spec_alpn_select [[0x68, 0x32], [0x68, 0x33]] [[0x68, 0x33], [0x68, 0x32]]
     = Some [0x68, 0x32]"
  by (simp add: alpn_select_cb_def QuicheNative_ssl_ctx_set_alpn_protos_def
        SSL_select_next_proto_def alpn_wire_def spec_alpn_select_def Let_def
        OPENSSL_NPN_NEGOTIATED_def SSL_TLSEXT_ERR_OK_def)

end
